theory Spec2Isabelle
  imports Complex_Main "HOL-Library.Word"
begin

chapter \<open>The program\<close>

section \<open>Data model of the protection tracker\<close>

text \<open>
  The plugin keeps two vectors of player records, a permissions cache and two lists of
  tribe ids. \<open>uint64\<close> values are 64-bit words, C++ \<open>int\<close> values are 32-bit words read
  with \<open>sint\<close>, and a \<open>system_clock::time_point\<close> is its tick count, a signed 64-bit
  number: a 64-bit word read with \<open>sint\<close>, whose sums, differences and products wrap
  around as the machine's do. The members \<open>all_players_\<close>, \<open>online_players_\<close> and \<open>loaded_plugins_\<close> lose
  their trailing underscore, which an Isabelle name cannot end with.
\<close>

type_synonym uint64 = "64 word"
type_synonym cint = "32 word"
type_synonym time_point = "64 word"

record AllPlayerData =
  steam_id :: uint64
  tribe_id :: uint64
  startDateTime :: time_point
  lastLoginDateTime :: time_point
  level :: cint
  isNewPlayer :: cint

record OnlinePlayersData = AllPlayerData +
  nextMessageTime :: time_point

record config =
  IgnoreAdmins :: bool
  NPPAdminGroup :: string
  HoursOfProtection :: cint
  MaxLevel :: cint
  MessageIntervalInSecs :: cint
  AllowNewPlayersToDamageEnemyStructures :: bool
  AllowWildCorruptedDinoDamage :: bool
  AllowWildDinoDamage :: bool
  StructureExemptions :: "string list"

record npp_state =
  all_players :: "AllPlayerData list"
  online_players :: "OnlinePlayersData list"
  PermissionsMap :: "uint64 \<rightharpoonup> string list"
  pveTribesList :: "uint64 list"
  removedPveTribesList :: "uint64 list"

subsection \<open>Engine strings\<close>

text \<open>
  The engine's \<open>FString\<close> compares and searches without regard to the case of ASCII
  letters; \<open>TArray::Contains\<close> uses that comparison.
\<close>

definition to_upper :: "char \<Rightarrow> char" where
  "to_upper c =
     (let n = (of_char c :: nat) in if 97 \<le> n \<and> n \<le> 122 then char_of (n - 32) else c)"

definition FString_eq :: "string \<Rightarrow> string \<Rightarrow> bool" where
  "FString_eq a b = (map to_upper a = map to_upper b)"

definition TArray_Contains :: "string list \<Rightarrow> string \<Rightarrow> bool" where
  "TArray_Contains xs s = list_ex (\<lambda>x. FString_eq x s) xs"

fun starts_with :: "string \<Rightarrow> string \<Rightarrow> bool" where
  "starts_with s [] = True"
| "starts_with [] (p # ps) = False"
| "starts_with (c # cs) (p # ps) = (c = p \<and> starts_with cs ps)"

fun has_substring :: "string \<Rightarrow> string \<Rightarrow> bool" where
  "has_substring [] p = starts_with [] p"
| "has_substring (c # cs) p = (starts_with (c # cs) p \<or> has_substring cs p)"

definition FString_Contains :: "string \<Rightarrow> string \<Rightarrow> bool" where
  "FString_Contains s p = has_substring (map to_upper s) (map to_upper p)"

subsection \<open>Permission and protection queries\<close>

definition IsAdmin :: "config \<Rightarrow> npp_state \<Rightarrow> uint64 \<Rightarrow> bool" where
  "IsAdmin cfg st sid =
     (if IgnoreAdmins cfg then
        (case PermissionsMap st sid of
           Some groups \<Rightarrow> TArray_Contains groups (NPPAdminGroup cfg)
         | None \<Rightarrow> False)
      else False)"

definition IsPlayerExists :: "npp_state \<Rightarrow> uint64 \<Rightarrow> bool" where
  "IsPlayerExists st sid = list_ex (\<lambda>d. steam_id d = sid) (all_players st)"

definition IsPVETribe :: "npp_state \<Rightarrow> uint64 \<Rightarrow> bool" where
  "IsPVETribe st tribeid = (count_list (pveTribesList st) tribeid > 0)"

text \<open>
  The predicate handed to \<open>find_if\<close> in \<open>IsTribeProtected\<close> returns a value only for a
  record whose steam id is not an admin's; for an admin's record control reaches the
  end of the lambda without a \<open>return\<close>, which C++ leaves undefined. The model makes
  that a branch of its own: \<open>None\<close>.
\<close>

definition tribe_pred :: "config \<Rightarrow> npp_state \<Rightarrow> uint64 \<Rightarrow> AllPlayerData \<Rightarrow> bool option" where
  "tribe_pred cfg st tribeid d =
     (if \<not> IsAdmin cfg st (steam_id d)
      then Some (tribe_id d = tribeid \<and> isNewPlayer d = 1)
      else None)"

fun find_if_opt :: "('a \<Rightarrow> bool option) \<Rightarrow> 'a list \<Rightarrow> bool option" where
  "find_if_opt p [] = Some False"
| "find_if_opt p (x # xs) =
     (case p x of
        None \<Rightarrow> None
      | Some True \<Rightarrow> Some True
      | Some False \<Rightarrow> find_if_opt p xs)"

definition IsTribeProtected :: "config \<Rightarrow> npp_state \<Rightarrow> uint64 \<Rightarrow> bool option" where
  "IsTribeProtected cfg st tribeid =
     (if tribeid > 100000 then
        (if \<not> IsPVETribe st tribeid
         then find_if_opt (tribe_pred cfg st tribeid) (all_players st)
         else Some True)
      else Some False)"

subsection \<open>Clock arithmetic\<close>

text \<open>
  \<open>system_clock\<close> of the target platform (the code loads plugins with \<open>LoadLibraryA\<close>)
  counts ticks of 100 nanoseconds in a \<open>long long\<close>. A difference of time points is a
  tick count of the same type. \<open>std::chrono::hours(n)\<close> and \<open>std::chrono::seconds(n)\<close> of
  an \<open>int\<close> become ticks by a 64-bit multiplication, which wraps for the hours when
  \<open>n\<close> is beyond 256204778 either way. \<open>duration_cast<seconds>\<close> divides the tick
  count and truncates towards zero; the quotient always fits, and the model gives its
  value.
\<close>

definition ticks_per_second :: int where
  "ticks_per_second = 10000000"

definition duration_cast_seconds :: "64 word \<Rightarrow> int" where
  "duration_cast_seconds d = sgn (sint d) * (\<bar>sint d\<bar> div ticks_per_second)"

definition seconds :: "cint \<Rightarrow> 64 word" where
  "seconds n = scast n * 10000000"

definition hours :: "cint \<Rightarrow> 64 word" where
  "hours n = scast n * 36000000000"

text \<open>A tick count that a \<open>long long\<close> holds.\<close>

definition fits64 :: "int \<Rightarrow> bool" where
  "fits64 k \<longleftrightarrow> - (2 ^ 63) \<le> k \<and> k < 2 ^ 63"

text \<open>
  The expiry time as a number: now minus \<open>HoursOfProtection\<close> hours, in ticks, on the
  integers.
\<close>

definition expiry_ticks :: "config \<Rightarrow> time_point \<Rightarrow> int" where
  "expiry_ticks cfg now = sint now - sint (HoursOfProtection cfg) * 3600 * ticks_per_second"

subsection \<open>Expiry of protection\<close>

text \<open>
  \<open>RemoveExpiredTribesProtection\<close> works on copies of the two vectors, which share the
  records with the originals, so every write lands in the tracker's records. The
  outer loop reads its record when it reaches it, after the writes of the earlier
  iterations; the model walks the indices and reads position \<open>i\<close> of the current list.
\<close>

definition protection_over :: "config \<Rightarrow> time_point \<Rightarrow> 'a AllPlayerData_scheme \<Rightarrow> bool" where
  "protection_over cfg expireTime d =
     (duration_cast_seconds (startDateTime d - expireTime) \<le> 0
      \<or> sint (MaxLevel cfg) \<le> sint (level d)
      \<or> isNewPlayer d = 0)"

definition expire_step ::
  "config \<Rightarrow> npp_state \<Rightarrow> time_point \<Rightarrow> nat
     \<Rightarrow> AllPlayerData list \<times> OnlinePlayersData list
     \<Rightarrow> AllPlayerData list \<times> OnlinePlayersData list" where
  "expire_step cfg st expireTime i s =
     (let alls = fst s; onl = snd s; allData = alls ! i in
      if protection_over cfg expireTime allData \<and> \<not> IsAdmin cfg st (steam_id allData)
      then
        (let alls1 = alls[i := allData\<lparr>isNewPlayer := 0\<rparr>];
             alls2 = map (\<lambda>moreAllData.
                       if tribe_id allData = tribe_id moreAllData
                          \<and> \<not> IsAdmin cfg st (steam_id moreAllData)
                       then moreAllData\<lparr>isNewPlayer := 0\<rparr> else moreAllData) alls1;
             onl2 = map (\<lambda>onlineData.
                       if (steam_id allData = steam_id onlineData
                           \<or> tribe_id allData = tribe_id onlineData)
                          \<and> \<not> IsAdmin cfg st (steam_id onlineData)
                       then onlineData\<lparr>isNewPlayer := 0\<rparr> else onlineData) onl
         in (alls2, onl2))
      else s)"

definition RemoveExpiredTribesProtection :: "config \<Rightarrow> time_point \<Rightarrow> npp_state \<Rightarrow> npp_state" where
  "RemoveExpiredTribesProtection cfg now st =
     (let expireTime = now - hours (HoursOfProtection cfg);
          r = fold (expire_step cfg st expireTime) [0..<length (all_players st)]
                (all_players st, online_players st)
      in st\<lparr>all_players := fst r, online_players := snd r\<rparr>)"

section \<open>The tracker's lists\<close>

text \<open>
  Each operation reads the clock where the code calls \<open>system_clock::now()\<close>; the model
  takes the reading as the argument \<open>now\<close>, one reading for one call of the operation.
\<close>

definition AddPlayerFromDB ::
  "npp_state \<Rightarrow> uint64 \<Rightarrow> uint64 \<Rightarrow> time_point \<Rightarrow> time_point \<Rightarrow> cint \<Rightarrow> cint \<Rightarrow> npp_state" where
  "AddPlayerFromDB st sid tid start login lvl isNew =
     (if list_ex (\<lambda>d. steam_id d = sid) (all_players st) then st
      else st\<lparr>all_players := all_players st @
             [\<lparr>steam_id = sid, tribe_id = tid, startDateTime = start,
               lastLoginDateTime = login, level = lvl, isNewPlayer = isNew\<rparr>]\<rparr>)"

definition AddNewPlayer :: "time_point \<Rightarrow> npp_state \<Rightarrow> uint64 \<Rightarrow> uint64 \<Rightarrow> npp_state" where
  "AddNewPlayer now st sid tid =
     (if list_ex (\<lambda>d. steam_id d = sid) (all_players st) then st
      else st\<lparr>all_players := all_players st @
             [\<lparr>steam_id = sid, tribe_id = tid, startDateTime = now,
               lastLoginDateTime = now, level = 1, isNewPlayer = 1\<rparr>]\<rparr>)"

text \<open>
  The loop of \<open>AddOnlinePlayer\<close> over \<open>all_players_\<close>: the first record with the steam id
  gets the new login time and is handed back as it was read; the loop stops there.
\<close>

fun stamp_login :: "uint64 \<Rightarrow> time_point \<Rightarrow> AllPlayerData list \<Rightarrow> AllPlayerData list \<times> AllPlayerData option" where
  "stamp_login sid login [] = ([], None)"
| "stamp_login sid login (d # ds) =
     (if steam_id d = sid then (d\<lparr>lastLoginDateTime := login\<rparr> # ds, Some d)
      else (let r = stamp_login sid login ds in (d # fst r, snd r)))"

definition AddOnlinePlayer :: "time_point \<Rightarrow> npp_state \<Rightarrow> uint64 \<Rightarrow> uint64 \<Rightarrow> npp_state" where
  "AddOnlinePlayer now st sid team_id =
     (if list_ex (\<lambda>d. steam_id d = sid) (online_players st) then st
      else
        (let r = stamp_login sid now (all_players st);
             entry = (case snd r of
                Some alldata \<Rightarrow>
                  \<lparr>steam_id = sid, tribe_id = tribe_id alldata,
                   startDateTime = startDateTime alldata, lastLoginDateTime = now,
                   level = level alldata, isNewPlayer = isNewPlayer alldata,
                   nextMessageTime = now\<rparr>
              | None \<Rightarrow>
                  \<lparr>steam_id = sid, tribe_id = team_id, startDateTime = now,
                   lastLoginDateTime = now, level = 1, isNewPlayer = 1,
                   nextMessageTime = now\<rparr>)
         in st\<lparr>all_players := fst r, online_players := online_players st @ [entry]\<rparr>))"

text \<open>
  \<open>RemovePlayer\<close> finds the first record with the steam id and erases what
  \<open>std::remove\<close> finds equal to that element. The elements are shared pointers, equal
  only to themselves, and every element of the vector was made by its own
  \<open>make_shared\<close>, so exactly the record found goes.
\<close>

fun erase_first :: "('a \<Rightarrow> bool) \<Rightarrow> 'a list \<Rightarrow> 'a list" where
  "erase_first p [] = []"
| "erase_first p (d # ds) = (if p d then ds else d # erase_first p ds)"

definition RemovePlayer :: "npp_state \<Rightarrow> uint64 \<Rightarrow> npp_state" where
  "RemovePlayer st sid =
     (if list_ex (\<lambda>d. steam_id d = sid) (online_players st)
      then st\<lparr>online_players := erase_first (\<lambda>d. steam_id d = sid) (online_players st)\<rparr>
      else st)"

fun next_message_scan ::
  "config \<Rightarrow> time_point \<Rightarrow> uint64 \<Rightarrow> OnlinePlayersData list \<Rightarrow> bool \<times> OnlinePlayersData list" where
  "next_message_scan cfg now_time sid [] = (True, [])"
| "next_message_scan cfg now_time sid (d # ds) =
     (if steam_id d = sid then
        (if duration_cast_seconds (nextMessageTime d - now_time) \<le> 0
         then (True, d\<lparr>nextMessageTime := now_time + seconds (MessageIntervalInSecs cfg)\<rparr> # ds)
         else (False, d # ds))
      else (let r = next_message_scan cfg now_time sid ds in (fst r, d # snd r)))"

definition IsNextMessageReady :: "config \<Rightarrow> time_point \<Rightarrow> npp_state \<Rightarrow> uint64 \<Rightarrow> bool \<times> npp_state" where
  "IsNextMessageReady cfg now_time st sid =
     (let r = next_message_scan cfg now_time sid (online_players st)
      in (fst r, st\<lparr>online_players := snd r\<rparr>))"

text \<open>Sequences of the four list operations, for the invariant of the steam ids.\<close>

datatype tracker_op =
    Op_AddNewPlayer time_point uint64 uint64
  | Op_AddPlayerFromDB uint64 uint64 time_point time_point cint cint
  | Op_AddOnlinePlayer time_point uint64 uint64
  | Op_RemovePlayer uint64

fun apply_tracker_op :: "tracker_op \<Rightarrow> npp_state \<Rightarrow> npp_state" where
  "apply_tracker_op (Op_AddNewPlayer now sid tid) st = AddNewPlayer now st sid tid"
| "apply_tracker_op (Op_AddPlayerFromDB sid tid start login lvl isNew) st =
     AddPlayerFromDB st sid tid start login lvl isNew"
| "apply_tracker_op (Op_AddOnlinePlayer now sid tid) st = AddOnlinePlayer now st sid tid"
| "apply_tracker_op (Op_RemovePlayer sid) st = RemovePlayer st sid"

definition run_tracker_ops :: "tracker_op list \<Rightarrow> npp_state \<Rightarrow> npp_state" where
  "run_tracker_ops ops st = fold apply_tracker_op ops st"

text \<open>
  What may come between two calls of \<open>IsNextMessageReady\<close>: the list operations, an
  expiry run, and other calls of \<open>IsNextMessageReady\<close>.
\<close>

datatype tracker_step =
    Step_op tracker_op
  | Step_IsNextMessageReady time_point uint64
  | Step_RemoveExpired time_point

fun apply_tracker_step :: "config \<Rightarrow> tracker_step \<Rightarrow> npp_state \<Rightarrow> npp_state" where
  "apply_tracker_step cfg (Step_op op) st = apply_tracker_op op st"
| "apply_tracker_step cfg (Step_IsNextMessageReady t sid) st = snd (IsNextMessageReady cfg t st sid)"
| "apply_tracker_step cfg (Step_RemoveExpired t) st = RemoveExpiredTribesProtection cfg t st"

definition run_tracker_steps :: "config \<Rightarrow> tracker_step list \<Rightarrow> npp_state \<Rightarrow> npp_state" where
  "run_tracker_steps cfg steps st = fold (apply_tracker_step cfg) steps st"

text \<open>
  A time \<open>t\<close> is a second before \<open>next\<close> when at least the ticks of one second lie
  between them, and their distance fits the tick count.
\<close>

definition second_before :: "time_point \<Rightarrow> time_point \<Rightarrow> bool" where
  "second_before next t \<longleftrightarrow>
     ticks_per_second \<le> sint next - sint t \<and> fits64 (sint next - sint t)"

text \<open>
  A step lets the player \<open>sid\<close> wait for \<open>next\<close> when it is not the removal of that
  player from the online list, and, if it is a call of \<open>IsNextMessageReady\<close> for that
  player, when it is made a second before \<open>next\<close>.
\<close>

fun lets_wait :: "uint64 \<Rightarrow> time_point \<Rightarrow> tracker_step \<Rightarrow> bool" where
  "lets_wait sid next (Step_op (Op_RemovePlayer r)) = (r \<noteq> sid)"
| "lets_wait sid next (Step_IsNextMessageReady t s) = (s \<noteq> sid \<or> second_before next t)"
| "lets_wait sid next step = True"

text \<open>The online list as \<open>IsNextMessageReady\<close> reads it: steam ids and message times.\<close>

definition timers :: "OnlinePlayersData list \<Rightarrow> (uint64 \<times> time_point) list" where
  "timers ds = map (\<lambda>d. (steam_id d, nextMessageTime d)) ds"

definition ids_distinct :: "npp_state \<Rightarrow> bool" where
  "ids_distinct st \<longleftrightarrow>
     distinct (map steam_id (all_players st)) \<and> distinct (map steam_id (online_players st))"

section \<open>The engine, as far as the hooks see it\<close>

text \<open>
  An engine object is known to the hooks by its class, its team and its name. The
  classes of the engine form a tree in which the dino characters and the player
  controllers are separate branches, so an object answers \<open>IsA\<close> for at most one of
  them. \<open>TargetingTeamField\<close> is an \<open>int\<close>; the hooks store it in a \<open>uint64\<close>, which
  extends the sign. The functions of the API library that the hooks call are the
  fields of \<open>engine\<close>.
\<close>

datatype uclass = APrimalDinoCharacter | AShooterPlayerController | OtherClass

record actor =
  actor_class :: uclass
  TargetingTeamField :: cint
  NameField :: string

record engine =
  GetSteamIdFromController :: "actor option \<Rightarrow> uint64"
  FindPlayerFromSteamId :: "uint64 \<Rightarrow> actor option"
  IsPlayerDead :: "actor option \<Rightarrow> bool"
  GetBlueprint :: "actor \<Rightarrow> string"

definition IsA :: "actor \<Rightarrow> uclass \<Rightarrow> bool" where
  "IsA a c = (actor_class a = c)"

datatype message =
    NewPlayerDoingDamageMessage
  | NewPlayerStructureTakingDamageMessage
  | NewPlayerStructureTakingDamageFromUnknownTribemateMessage

datatype log_line =
    Log_new_player_tried uint64 uint64 uint64
  | Log_unprotected_tried uint64 uint64 uint64
  | Log_database_updated
  | Log_unexpected_DB_error

datatype sql_value = Sql_uint64 uint64 | Sql_int cint | Sql_text string | Sql_bool bool

datatype sql_stmt =
    BEGIN_TRANSACTION
  | INSERT_OR_REPLACE_Players "sql_value list"
  | INSERT_OR_REPLACE_PVE_Tribes uint64 bool
  | SELECT_protected_PVE_Tribes
  | END_TRANSACTION
  | PRAGMA_optimize

datatype effect =
    SendNotification "actor option" message
  | LogInfo log_line
  | LogError log_line
  | Call_Logout_original
  | Call_SaveWorld_original
  | Sql sql_stmt

definition IsExemptStructure :: "config \<Rightarrow> engine \<Rightarrow> actor \<Rightarrow> bool" where
  "IsExemptStructure cfg eng structure =
     (if length (StructureExemptions cfg) > 0
      then count_list (StructureExemptions cfg) (GetBlueprint eng structure) \<noteq> 0
      else False)"

fun IsPlayerProtected_scan :: "config \<Rightarrow> npp_state \<Rightarrow> uint64 \<Rightarrow> OnlinePlayersData list \<Rightarrow> bool" where
  "IsPlayerProtected_scan cfg st sid [] = False"
| "IsPlayerProtected_scan cfg st sid (d # ds) =
     (if steam_id d = sid \<and> \<not> IsAdmin cfg st (steam_id d) then isNewPlayer d \<noteq> 0
      else IsPlayerProtected_scan cfg st sid ds)"

definition IsPlayerProtected :: "config \<Rightarrow> engine \<Rightarrow> npp_state \<Rightarrow> actor option \<Rightarrow> bool" where
  "IsPlayerProtected cfg eng st PC =
     IsPlayerProtected_scan cfg st (GetSteamIdFromController eng PC) (online_players st)"

section \<open>The damage hook\<close>

text \<open>
  The hook either ends in \<open>return APrimalStructure_TakeDamage_original(...)\<close>, always
  with its own arguments, or in \<open>return 0\<close>; the original is called nowhere else.
  \<open>Original_result\<close> stands for the first, \<open>Zero\<close> for the second. The hook also
  returns the tracker's state, which \<open>IsNextMessageReady\<close> may change, and what it sent
  and logged. Its value is \<open>None\<close> where \<open>IsTribeProtected\<close> has no defined value.
\<close>

datatype take_damage_return = Original_result | Zero

type_synonym take_damage_outcome = "(take_damage_return \<times> npp_state \<times> effect list) option"

definition wild_dino_allowed :: "config \<Rightarrow> actor \<Rightarrow> bool" where
  "wild_dino_allowed cfg a =
     (IsA a APrimalDinoCharacter
      \<and> ((AllowWildCorruptedDinoDamage cfg \<and> sint (TargetingTeamField a) < 10000
           \<and> FString_Contains (NameField a) ''Corrupt'')
          \<or> (AllowWildDinoDamage cfg \<and> sint (TargetingTeamField a) < 10000)))"

definition refuse_and_tell ::
  "config \<Rightarrow> time_point \<Rightarrow> npp_state \<Rightarrow> uint64 \<Rightarrow> effect list \<Rightarrow> take_damage_outcome" where
  "refuse_and_tell cfg now st sid told =
     (let r = IsNextMessageReady cfg now st sid
      in Some (Zero, snd r, if fst r then told else []))"

fun tell_tribemates ::
  "config \<Rightarrow> engine \<Rightarrow> time_point \<Rightarrow> uint64 \<Rightarrow> OnlinePlayersData list
     \<Rightarrow> npp_state \<times> effect list \<Rightarrow> npp_state \<times> effect list" where
  "tell_tribemates cfg eng now attacking [] acc = acc"
| "tell_tribemates cfg eng now attacking (onlineData # rest) acc =
     (if tribe_id onlineData = attacking then
        (let r = IsNextMessageReady cfg now (fst acc) (steam_id onlineData);
             tribe_player = FindPlayerFromSteamId eng (steam_id onlineData)
         in tell_tribemates cfg eng now attacking rest
              (snd r,
               if fst r \<and> \<not> IsPlayerDead eng tribe_player
               then snd acc @ [SendNotification tribe_player
                                 NewPlayerStructureTakingDamageFromUnknownTribemateMessage]
               else snd acc))
      else tell_tribemates cfg eng now attacking rest acc)"

definition damage_by_player ::
  "config \<Rightarrow> engine \<Rightarrow> time_point \<Rightarrow> npp_state \<Rightarrow> actor \<Rightarrow> uint64 \<Rightarrow> uint64 \<Rightarrow> take_damage_outcome" where
  "damage_by_player cfg eng now st instigator attacked_tribeid attacking_tribeid =
     (let sid = GetSteamIdFromController eng (Some instigator);
          player = FindPlayerFromSteamId eng sid
      in if IsAdmin cfg st sid then Some (Original_result, st, [])
         else if IsPlayerProtected cfg eng st player then
           (if \<not> AllowNewPlayersToDamageEnemyStructures cfg then
              (if attacked_tribeid < 100000 \<or> attacked_tribeid = attacking_tribeid
               then Some (Original_result, st, [])
               else refuse_and_tell cfg now st sid
                      [SendNotification player NewPlayerDoingDamageMessage,
                       LogInfo (Log_new_player_tried sid attacking_tribeid attacked_tribeid)])
            else Some (Original_result, st, []))
         else
           (case IsTribeProtected cfg st attacked_tribeid of
              None \<Rightarrow> None
            | Some protected \<Rightarrow>
                if protected \<and> attacked_tribeid \<noteq> attacking_tribeid
                then refuse_and_tell cfg now st sid
                       [SendNotification player NewPlayerStructureTakingDamageMessage,
                        LogInfo (Log_unprotected_tried sid attacking_tribeid attacked_tribeid)]
                else Some (Original_result, st, [])))"

definition damage_without_instigator ::
  "config \<Rightarrow> engine \<Rightarrow> time_point \<Rightarrow> npp_state \<Rightarrow> actor \<Rightarrow> uint64 \<Rightarrow> uint64 \<Rightarrow> take_damage_outcome" where
  "damage_without_instigator cfg eng now st causer attacked_tribeid attacking_tribeid =
     (if attacked_tribeid = attacking_tribeid then Some (Original_result, st, [])
      else
        (case IsTribeProtected cfg st attacked_tribeid of
           None \<Rightarrow> None
         | Some True \<Rightarrow>
             if wild_dino_allowed cfg causer then Some (Original_result, st, [])
             else
               (let r = tell_tribemates cfg eng now attacking_tribeid (online_players st) (st, [])
                in Some (Zero, fst r, snd r))
         | Some False \<Rightarrow>
             (case IsTribeProtected cfg st attacking_tribeid of
                None \<Rightarrow> None
              | Some protected \<Rightarrow>
                  if protected \<and> \<not> AllowNewPlayersToDamageEnemyStructures cfg
                  then Some (Zero, st, [])
                  else Some (Original_result, st, []))))"

definition Hook_APrimalStructure_TakeDamage ::
  "config \<Rightarrow> engine \<Rightarrow> time_point \<Rightarrow> npp_state
     \<Rightarrow> actor option \<Rightarrow> actor option \<Rightarrow> actor option \<Rightarrow> take_damage_outcome" where
  "Hook_APrimalStructure_TakeDamage cfg eng now st this EventInstigator DamageCauser =
     (case this of
        None \<Rightarrow> Some (Original_result, st, [])
      | Some structure \<Rightarrow>
          if IsExemptStructure cfg eng structure then Some (Original_result, st, [])
          else
            (let attacked_tribeid = (scast (TargetingTeamField structure) :: uint64) in
             case DamageCauser of
               Some causer \<Rightarrow>
                 (let attacking_tribeid = (scast (TargetingTeamField causer) :: uint64) in
                  case EventInstigator of
                    Some instigator \<Rightarrow>
                      if wild_dino_allowed cfg instigator then Some (Original_result, st, [])
                      else if IsA instigator AShooterPlayerController
                      then damage_by_player cfg eng now st instigator
                             attacked_tribeid attacking_tribeid
                      else Some (Original_result, st, [])
                  | None \<Rightarrow>
                      damage_without_instigator cfg eng now st causer
                        attacked_tribeid attacking_tribeid)
             | None \<Rightarrow>
                 (case IsTribeProtected cfg st attacked_tribeid of
                    None \<Rightarrow> None
                  | Some protected \<Rightarrow>
                      if protected then Some (Zero, st, [])
                      else Some (Original_result, st, []))))"

section \<open>The logout hook\<close>

text \<open>
  The hook returns the tracker's state and the engine calls it made. The original
  \<open>Logout\<close> is its last statement, after the two removals.
\<close>

definition Hook_AShooterGameMode_Logout :: "engine \<Rightarrow> npp_state \<Rightarrow> actor option \<Rightarrow> npp_state \<times> effect list" where
  "Hook_AShooterGameMode_Logout eng st exiting =
     (let sid = GetSteamIdFromController eng exiting;
          st1 = RemovePlayer st sid;
          st2 = st1\<lparr>PermissionsMap := (PermissionsMap st1)(sid := None)\<rparr>
      in (st2, [Call_Logout_original]))"

section \<open>The save hook\<close>

text \<open>
  The SQL store is outside the plugin: the model takes it as a state \<open>'db\<close> with the two
  things the code asks of it. \<open>execute\<close> runs a statement: it gives the new state, or
  \<open>None\<close> when the store throws \<open>sqlite_exception\<close>, and then the state is as before.
  \<open>select_protected_tribes\<close> runs the query for the protected tribes: it gives the tribe
  ids handed to the callback, and whether the query ended without an exception.
  \<open>GetTimestamp\<close> formats a time point and is a parameter as well. A save threads the
  tracker's state, the store and the list of what was called, run and logged so far;
  a statement is listed when it is run, whether it throws or not.
\<close>

record 'db sql_store =
  execute :: "sql_stmt \<Rightarrow> 'db \<Rightarrow> 'db option"
  select_protected_tribes :: "'db \<Rightarrow> uint64 list \<times> bool"

type_synonym 'db save_state = "npp_state \<times> 'db \<times> effect list"

definition effects_of :: "'db save_state \<Rightarrow> effect list" where
  "effects_of s = snd (snd s)"

definition store_of :: "'db save_state \<Rightarrow> 'db" where
  "store_of s = fst (snd s)"

definition note_effect :: "effect \<Rightarrow> 'db save_state \<Rightarrow> 'db save_state" where
  "note_effect e s = (case s of (st, db, done) \<Rightarrow> (st, db, done @ [e]))"

text \<open>\<open>run_sql\<close> says whether the statement ran, and gives the state after it.\<close>

definition run_sql :: "'db sql_store \<Rightarrow> sql_stmt \<Rightarrow> 'db save_state \<Rightarrow> bool \<times> 'db save_state" where
  "run_sql store stmt s =
     (case s of (st, db, done) \<Rightarrow>
        (case execute store stmt db of
           Some db' \<Rightarrow> (True, (st, db', done @ [Sql stmt]))
         | None \<Rightarrow> (False, (st, db, done @ [Sql stmt]))))"

definition player_row :: "(time_point \<Rightarrow> string) \<Rightarrow> AllPlayerData \<Rightarrow> sql_value list" where
  "player_row GetTimestamp d =
     [Sql_uint64 (steam_id d), Sql_uint64 (tribe_id d),
      Sql_text (GetTimestamp (startDateTime d)), Sql_text (GetTimestamp (lastLoginDateTime d)),
      Sql_int (level d), Sql_int (isNewPlayer d)]"

text \<open>\<open>UpdatePlayerDB\<close> catches the store's exception and logs it.\<close>

definition UpdatePlayerDB ::
  "'db sql_store \<Rightarrow> (time_point \<Rightarrow> string) \<Rightarrow> AllPlayerData \<Rightarrow> 'db save_state \<Rightarrow> 'db save_state" where
  "UpdatePlayerDB store GetTimestamp d s =
     (let r = run_sql store (INSERT_OR_REPLACE_Players (player_row GetTimestamp d)) s
      in if fst r then snd r else note_effect (LogError Log_unexpected_DB_error) (snd r))"

text \<open>
  \<open>UpdatePVETribeDB\<close> does the same. When the insert throws, the rest of the outer \<open>try\<close>
  is skipped: the lists are neither cleared nor read again. When the query throws, the
  tribes handed over before are in \<open>pveTribesList\<close> already. The first component of the
  result says whether the two vectors were cleared.
\<close>

definition UpdatePVETribeDB ::
  "'db sql_store \<Rightarrow> uint64 \<Rightarrow> bool \<Rightarrow> 'db save_state \<Rightarrow> bool \<times> 'db save_state" where
  "UpdatePVETribeDB store tid stillProtected s =
     (let r = run_sql store (INSERT_OR_REPLACE_PVE_Tribes tid stillProtected) s in
      if \<not> fst r then (False, note_effect (LogError Log_unexpected_DB_error) (snd r))
      else if \<not> stillProtected then
        (case snd r of
           (st, db, done) \<Rightarrow>
             (let q = select_protected_tribes store db;
                  st' = st\<lparr>removedPveTribesList := [], pveTribesList := fst q\<rparr>;
                  done' = done @ [Sql SELECT_protected_PVE_Tribes]
                            @ (if snd q then [] else [LogError Log_unexpected_DB_error])
              in (True, (st', db, done'))))
      else (False, snd r))"

text \<open>
  The third loop of the hook is a range-for over \<open>removedPveTribesList\<close>, and the call in
  its body clears that very vector when its insert runs. Clearing invalidates the
  iterators the loop holds, and the loop's next step increments and compares them:
  from there on C++ leaves the behaviour undefined, which is \<open>None\<close> here. The loop is
  defined as long as the inserts throw, and for the empty list.
\<close>

fun removed_tribes_loop :: "'db sql_store \<Rightarrow> uint64 list \<Rightarrow> 'db save_state \<Rightarrow> 'db save_state option" where
  "removed_tribes_loop store [] s = Some s"
| "removed_tribes_loop store (tid # rest) s =
     (let r = UpdatePVETribeDB store tid False s
      in if fst r then None else removed_tribes_loop store rest (snd r))"

text \<open>
  The hook itself catches nothing: when \<open>BEGIN TRANSACTION\<close>, \<open>END TRANSACTION\<close> or
  \<open>PRAGMA optimize\<close> throws, the exception leaves the hook, after the original \<open>SaveWorld\<close>
  has been called.
\<close>

datatype 'db save_outcome =
    Returned bool "'db save_state"
  | Threw "'db save_state"
  | Undefined_behaviour

definition Hook_AShooterGameMode_SaveWorld ::
  "'db sql_store \<Rightarrow> (time_point \<Rightarrow> string) \<Rightarrow> bool \<Rightarrow> npp_state \<Rightarrow> 'db \<Rightarrow> 'db save_outcome" where
  "Hook_AShooterGameMode_SaveWorld store GetTimestamp original_result st db =
     (let result = original_result;
          s0 = (st, db, [Call_SaveWorld_original]);
          b = run_sql store BEGIN_TRANSACTION s0
      in if \<not> fst b then Threw (snd b)
         else
           (let s2 = fold (UpdatePlayerDB store GetTimestamp) (all_players st) (snd b);
                s3 = fold (\<lambda>tid s. snd (UpdatePVETribeDB store tid True s))
                       (pveTribesList (fst s2)) s2
            in case removed_tribes_loop store (removedPveTribesList (fst s3)) s3 of
                 None \<Rightarrow> Undefined_behaviour
               | Some s4 \<Rightarrow>
                   (let e = run_sql store END_TRANSACTION s4 in
                    if \<not> fst e then Threw (snd e)
                    else
                      (let p = run_sql store PRAGMA_optimize (snd e) in
                       if \<not> fst p then Threw (snd p)
                       else Returned result
                              (note_effect (LogInfo Log_database_updated) (snd p))))))"

text \<open>
  For the statements about the hook: a statement that the store refuses leaves the
  store as it was, and the statements among the effects.
\<close>

definition attempt :: "'db sql_store \<Rightarrow> sql_stmt \<Rightarrow> 'db \<Rightarrow> 'db" where
  "attempt store stmt db = (case execute store stmt db of Some db' \<Rightarrow> db' | None \<Rightarrow> db)"

fun statements_of :: "effect list \<Rightarrow> sql_stmt list" where
  "statements_of [] = []"
| "statements_of (Sql stmt # es) = stmt # statements_of es"
| "statements_of (e # es) = statements_of es"

text \<open>
  What a run of statements leaves among the effects, when each is listed and a refused
  one is logged and skipped.
\<close>

fun attempt_effects :: "'db sql_store \<Rightarrow> sql_stmt list \<Rightarrow> 'db \<Rightarrow> effect list" where
  "attempt_effects store [] db = []"
| "attempt_effects store (stmt # stmts) db =
     (case execute store stmt db of
        Some db' \<Rightarrow> Sql stmt # attempt_effects store stmts db'
      | None \<Rightarrow> Sql stmt # LogError Log_unexpected_DB_error # attempt_effects store stmts db)"

definition player_statements :: "(time_point \<Rightarrow> string) \<Rightarrow> npp_state \<Rightarrow> sql_stmt list" where
  "player_statements GetTimestamp st =
     map (\<lambda>d. INSERT_OR_REPLACE_Players (player_row GetTimestamp d)) (all_players st)"

definition pve_statements :: "npp_state \<Rightarrow> sql_stmt list" where
  "pve_statements st = map (\<lambda>tid. INSERT_OR_REPLACE_PVE_Tribes tid True) (pveTribesList st)"

section \<open>The plugin manager\<close>

text \<open>
  The manager keeps the vector \<open>loaded_plugins_\<close> and works on files. The model holds the
  files as a map from path to content and keeps the list of the steps done and the
  lines logged. What the system decides is in \<open>host\<close>: the current directory, the API
  version (the value of \<open>std::stof(API_VERSION)\<close>), whether a library loads and with
  which handle, whether it unloads, whether a copy and a removal go through, and what
  the JSON reader makes of a \<open>PluginInfo.json\<close>. The reader throws on a text it
  rejects (\<open>None\<close>); in a text it accepts, a key is missing, or has a value of the type
  asked for, or a value of another type, on which \<open>value\<close> throws. The version numbers
  are floats that are compared only; the model holds their values as reals. A plugin's
  own \<open>Plugin_Init\<close> and \<open>Plugin_Unload\<close> are run by the code when found and are not
  modelled.
\<close>

record Plugin =
  h_module :: nat
  name :: string
  full_name :: string
  description :: string
  version :: real
  min_api_version :: real
  dependencies :: "string list"

datatype 'a json_field = Missing | Value 'a | Ill_typed

record json_plugin_info =
  json_FullName :: "string json_field"
  json_Description :: "string json_field"
  json_Version :: "real json_field"
  json_MinApiVersion :: "real json_field"
  json_Dependencies :: "string list json_field"

record plugin_info =
  FullName :: string
  Description :: string
  Version :: real
  MinApiVersion :: real
  Dependencies :: "string list"

type_synonym file_system = "string \<rightharpoonup> string"

record host =
  GetCurrentDir :: string
  API_VERSION :: real
  LoadLibraryA :: "file_system \<Rightarrow> string \<Rightarrow> nat option"
  FreeLibrary :: "nat \<Rightarrow> bool"
  parse_json :: "string \<Rightarrow> json_plugin_info option"
  copy_goes_through :: "file_system \<Rightarrow> string \<Rightarrow> string \<Rightarrow> bool"
  remove_goes_through :: "file_system \<Rightarrow> string \<Rightarrow> bool"

text \<open>
  The exceptions: the runtime errors that the manager and the file system library
  throw, and the exception of the JSON reader, which is not a runtime error. All of
  them are \<open>std::exception\<close>s.
\<close>

datatype runtime_error =
    Plugin_does_not_exist string
  | Plugin_was_already_loaded string
  | Plugin_requires_newer_API_version string
  | Failed_to_load_plugin string
  | Plugin_is_not_loaded string
  | Failed_to_unload_plugin string
  | Filesystem_error string

datatype exception = Runtime_error runtime_error | Json_exception

datatype manager_event =
    Saved_world
  | Unloaded string nat
  | Copied string string
  | Removed string
  | Loaded string nat
  | Log_info_saving_world
  | Log_info_world_saved
  | Log_info_reloaded string
  | Log_warn exception

record PluginManager =
  loaded_plugins :: "Plugin list"
  files :: file_system
  save_world_before_reload :: bool
  reload_sleep_seconds :: cint
  next_reload_check :: "64 word"
  events :: "manager_event list"

definition fs_exists :: "file_system \<Rightarrow> string \<Rightarrow> bool" where
  "fs_exists fs path = (fs path \<noteq> None)"

definition plugin_dir_path :: "host \<Rightarrow> string \<Rightarrow> string" where
  "plugin_dir_path h plugin_name = GetCurrentDir h @ ''/ArkApi/Plugins/'' @ plugin_name"

definition plugin_dll_path :: "host \<Rightarrow> string \<Rightarrow> string" where
  "plugin_dll_path h plugin_name = plugin_dir_path h plugin_name @ ''/'' @ plugin_name @ ''.dll''"

definition FindPlugin :: "PluginManager \<Rightarrow> string \<Rightarrow> Plugin option" where
  "FindPlugin pm plugin_name = find (\<lambda>plugin. name plugin = plugin_name) (loaded_plugins pm)"

definition IsPluginLoaded :: "PluginManager \<Rightarrow> string \<Rightarrow> bool" where
  "IsPluginLoaded pm plugin_name = (FindPlugin pm plugin_name \<noteq> None)"

definition empty_json :: json_plugin_info where
  "empty_json = \<lparr>json_FullName = Missing, json_Description = Missing, json_Version = Missing,
     json_MinApiVersion = Missing, json_Dependencies = Missing\<rparr>"

text \<open>\<open>value(key, default)\<close> of the JSON library.\<close>

definition json_value :: "'a json_field \<Rightarrow> 'a \<Rightarrow> exception + 'a" where
  "json_value field fallback =
     (case field of Missing \<Rightarrow> Inr fallback | Value v \<Rightarrow> Inr v | Ill_typed \<Rightarrow> Inl Json_exception)"

definition ReadPluginInfo :: "host \<Rightarrow> PluginManager \<Rightarrow> string \<Rightarrow> exception + plugin_info" where
  "ReadPluginInfo h pm plugin_name =
     (let config_path = plugin_dir_path h plugin_name @ ''/PluginInfo.json'' in
      case (case files pm config_path of
              Some text \<Rightarrow> parse_json h text
            | None \<Rightarrow> Some empty_json) of
        None \<Rightarrow> Inl Json_exception
      | Some j \<Rightarrow>
          (case json_value (json_FullName j) [] of Inl e \<Rightarrow> Inl e | Inr full \<Rightarrow>
           case json_value (json_Description j) ''No description'' of Inl e \<Rightarrow> Inl e | Inr descr \<Rightarrow>
           case json_value (json_Version j) 1 of Inl e \<Rightarrow> Inl e | Inr vers \<Rightarrow>
           case json_value (json_MinApiVersion j) 0 of Inl e \<Rightarrow> Inl e | Inr min_api \<Rightarrow>
           case json_value (json_Dependencies j) [] of Inl e \<Rightarrow> Inl e | Inr deps \<Rightarrow>
             Inr \<lparr>FullName = full, Description = descr, Version = vers,
                  MinApiVersion = min_api, Dependencies = deps\<rparr>))"

text \<open>
  A function that throws returns \<open>Inl\<close> of the exception, with the manager as the throw
  left it. \<open>LoadPlugin\<close> catches nothing, so the JSON reader's exception leaves it as it
  is.
\<close>

definition LoadPlugin :: "host \<Rightarrow> PluginManager \<Rightarrow> string \<Rightarrow> (exception + Plugin) \<times> PluginManager" where
  "LoadPlugin h pm plugin_name =
     (let full_dll_path = plugin_dll_path h plugin_name in
      if \<not> fs_exists (files pm) full_dll_path
      then (Inl (Runtime_error (Plugin_does_not_exist plugin_name)), pm)
      else if IsPluginLoaded pm plugin_name
      then (Inl (Runtime_error (Plugin_was_already_loaded plugin_name)), pm)
      else
        (case ReadPluginInfo h pm plugin_name of
           Inl e \<Rightarrow> (Inl e, pm)
         | Inr info \<Rightarrow>
             (let required_version = MinApiVersion info in
              if required_version \<noteq> 0 \<and> API_VERSION h < required_version
              then (Inl (Runtime_error (Plugin_requires_newer_API_version plugin_name)), pm)
              else
                (case LoadLibraryA h (files pm) full_dll_path of
                   None \<Rightarrow> (Inl (Runtime_error (Failed_to_load_plugin plugin_name)), pm)
                 | Some handle \<Rightarrow>
                     (let plugin = \<lparr>h_module = handle, name = plugin_name,
                            full_name = FullName info, description = Description info,
                            version = Version info, min_api_version = MinApiVersion info,
                            dependencies = Dependencies info\<rparr>
                      in (Inr plugin,
                          pm\<lparr>loaded_plugins := loaded_plugins pm @ [plugin],
                             events := events pm @ [Loaded plugin_name handle]\<rparr>))))))"

definition UnloadPlugin :: "host \<Rightarrow> PluginManager \<Rightarrow> string \<Rightarrow> (exception + unit) \<times> PluginManager" where
  "UnloadPlugin h pm plugin_name =
     (case FindPlugin pm plugin_name of
        None \<Rightarrow> (Inl (Runtime_error (Plugin_is_not_loaded plugin_name)), pm)
      | Some plugin \<Rightarrow>
          if \<not> fs_exists (files pm) (plugin_dll_path h plugin_name)
          then (Inl (Runtime_error (Plugin_does_not_exist plugin_name)), pm)
          else if \<not> FreeLibrary h (h_module plugin)
          then (Inl (Runtime_error (Failed_to_unload_plugin plugin_name)), pm)
          else (Inr (),
                pm\<lparr>loaded_plugins :=
                      erase_first (\<lambda>p. name p = plugin_name) (loaded_plugins pm),
                   events := events pm @ [Unloaded plugin_name (h_module plugin)]\<rparr>))"

text \<open>
  \<open>directory_iterator\<close> yields the entries of the plugins directory; for each the code
  asks the library for its path, whether it is a directory and the stem of its file
  name. The loop changes files inside the entries only, so the list is fixed.
  \<open>copy_file\<close> and \<open>remove\<close> of the file system library throw when the system refuses;
  its queries \<open>exists\<close> and \<open>is_directory\<close> are taken to answer.
\<close>

record dir_entry =
  generic_string :: string
  is_directory :: bool
  stem :: string

definition copy_file :: "host \<Rightarrow> string \<Rightarrow> string \<Rightarrow> PluginManager \<Rightarrow> (exception + unit) \<times> PluginManager" where
  "copy_file h from to pm =
     (case files pm from of
        None \<Rightarrow> (Inl (Runtime_error (Filesystem_error from)), pm)
      | Some content \<Rightarrow>
          if \<not> copy_goes_through h (files pm) from to
          then (Inl (Runtime_error (Filesystem_error from)), pm)
          else (Inr (), pm\<lparr>files := (files pm)(to \<mapsto> content),
                           events := events pm @ [Copied from to]\<rparr>))"

definition remove_file :: "host \<Rightarrow> string \<Rightarrow> PluginManager \<Rightarrow> (exception + unit) \<times> PluginManager" where
  "remove_file h path pm =
     (if \<not> remove_goes_through h (files pm) path
      then (Inl (Runtime_error (Filesystem_error path)), pm)
      else (Inr (), pm\<lparr>files := (files pm)(path := None),
                       events := events pm @ [Removed path]\<rparr>))"

definition log_event :: "manager_event \<Rightarrow> PluginManager \<Rightarrow> PluginManager" where
  "log_event e pm = pm\<lparr>events := events pm @ [e]\<rparr>"

text \<open>The body of the \<open>try\<close> block of \<open>DetectPluginChanges\<close>.\<close>

definition reload_plugin ::
  "host \<Rightarrow> string \<Rightarrow> string \<Rightarrow> string \<Rightarrow> PluginManager \<Rightarrow> (exception + unit) \<times> PluginManager" where
  "reload_plugin h filename plugin_file_path new_plugin_file_path pm =
     (case UnloadPlugin h pm filename of
        (Inl e, pm1) \<Rightarrow> (Inl e, pm1)
      | (Inr u, pm1) \<Rightarrow>
          (case copy_file h new_plugin_file_path plugin_file_path pm1 of
             (Inl e, pm2) \<Rightarrow> (Inl e, pm2)
           | (Inr u, pm2) \<Rightarrow>
               (case remove_file h new_plugin_file_path pm2 of
                  (Inl e, pm3) \<Rightarrow> (Inl e, pm3)
                | (Inr u, pm3) \<Rightarrow>
                    (case LoadPlugin h pm3 filename of
                       (Inl e, pm4) \<Rightarrow> (Inl e, pm4)
                     | (Inr plugin, pm4) \<Rightarrow> (Inr (), pm4)))))"

definition wants_reload :: "PluginManager \<Rightarrow> dir_entry \<Rightarrow> bool" where
  "wants_reload pm e =
     (is_directory e
      \<and> fs_exists (files pm) (generic_string e @ ''/'' @ stem e @ ''.dll.ArkApi'')
      \<and> FindPlugin pm (stem e) \<noteq> None)"

definition detect_entry :: "host \<Rightarrow> dir_entry \<Rightarrow> bool \<times> PluginManager \<Rightarrow> bool \<times> PluginManager" where
  "detect_entry h e s =
     (let save_world = fst s; pm = snd s in
      if \<not> is_directory e then s
      else
        (let filename = stem e;
             plugin_folder = generic_string e @ ''/'';
             plugin_file_path = plugin_folder @ filename @ ''.dll'';
             new_plugin_file_path = plugin_folder @ filename @ ''.dll.ArkApi''
         in if fs_exists (files pm) new_plugin_file_path \<and> FindPlugin pm filename \<noteq> None then
              (let pm1 = (if save_world
                          then pm\<lparr>events := events pm @
                                 [Log_info_saving_world, Saved_world, Log_info_world_saved]\<rparr>
                          else pm)
               in case reload_plugin h filename plugin_file_path new_plugin_file_path pm1 of
                    (Inl error, pm2) \<Rightarrow> (False, log_event (Log_warn error) pm2)
                  | (Inr u, pm2) \<Rightarrow> (False, log_event (Log_info_reloaded filename) pm2))
            else s))"

definition DetectPluginChanges :: "host \<Rightarrow> dir_entry list \<Rightarrow> PluginManager \<Rightarrow> PluginManager" where
  "DetectPluginChanges h entries pm =
     snd (fold (detect_entry h) entries (save_world_before_reload pm, pm))"

definition DetectPluginChangesTimerCallback ::
  "host \<Rightarrow> dir_entry list \<Rightarrow> 64 word \<Rightarrow> PluginManager \<Rightarrow> PluginManager" where
  "DetectPluginChangesTimerCallback h entries now pm =
     (if sint now < sint (next_reload_check pm) then pm
      else DetectPluginChanges h entries
             (pm\<lparr>next_reload_check := now + scast (reload_sleep_seconds pm)\<rparr>))"

text \<open>The four steps of a hot swap, in the order of the code, and what saving the world adds.\<close>

definition new_dll_path :: "dir_entry \<Rightarrow> string" where
  "new_dll_path e = generic_string e @ ''/'' @ stem e @ ''.dll.ArkApi''"

definition old_dll_path :: "dir_entry \<Rightarrow> string" where
  "old_dll_path e = generic_string e @ ''/'' @ stem e @ ''.dll''"

definition save_steps :: "bool \<Rightarrow> manager_event list" where
  "save_steps save_world =
     (if save_world then [Log_info_saving_world, Saved_world, Log_info_world_saved] else [])"

definition reload_steps :: "dir_entry \<Rightarrow> nat \<Rightarrow> nat \<Rightarrow> manager_event list" where
  "reload_steps e old_handle new_handle =
     [Unloaded (stem e) old_handle, Copied (new_dll_path e) (old_dll_path e),
      Removed (new_dll_path e), Loaded (stem e) new_handle]"

text \<open>The manager after each step of a hot swap that went through.\<close>

definition after_save :: "bool \<Rightarrow> PluginManager \<Rightarrow> PluginManager" where
  "after_save save_world pm = pm\<lparr>events := events pm @ save_steps save_world\<rparr>"

definition after_unload :: "dir_entry \<Rightarrow> Plugin \<Rightarrow> PluginManager \<Rightarrow> PluginManager" where
  "after_unload e p pm =
     pm\<lparr>loaded_plugins := erase_first (\<lambda>q. name q = stem e) (loaded_plugins pm),
        events := events pm @ [Unloaded (stem e) (h_module p)]\<rparr>"

definition after_copy :: "dir_entry \<Rightarrow> string \<Rightarrow> PluginManager \<Rightarrow> PluginManager" where
  "after_copy e content pm =
     pm\<lparr>files := (files pm)(old_dll_path e \<mapsto> content),
        events := events pm @ [Copied (new_dll_path e) (old_dll_path e)]\<rparr>"

definition after_remove :: "dir_entry \<Rightarrow> PluginManager \<Rightarrow> PluginManager" where
  "after_remove e pm =
     pm\<lparr>files := (files pm)(new_dll_path e := None),
        events := events pm @ [Removed (new_dll_path e)]\<rparr>"

definition after_load :: "dir_entry \<Rightarrow> Plugin \<Rightarrow> PluginManager \<Rightarrow> PluginManager" where
  "after_load e q pm =
     pm\<lparr>loaded_plugins := loaded_plugins pm @ [q],
        events := events pm @ [Loaded (stem e) (h_module q)]\<rparr>"

text \<open>The team ids that the hook compares, as it reads them.\<close>

definition tribe_of :: "actor \<Rightarrow> uint64" where
  "tribe_of a = scast (TargetingTeamField a)"

text \<open>
  What an iteration of the expiry loop may change: nothing but \<open>isNewPlayer\<close>, which
  either keeps its value or becomes 0, and nothing at all in an admin's record.
\<close>

definition expire_rel ::
  "config \<Rightarrow> npp_state \<Rightarrow> AllPlayerData list \<times> OnlinePlayersData list
     \<Rightarrow> AllPlayerData list \<times> OnlinePlayersData list \<Rightarrow> bool" where
  "expire_rel cfg st s t =
     (length (fst t) = length (fst s) \<and> length (snd t) = length (snd s)
      \<and> (\<forall>k < length (fst s).
            steam_id (fst t ! k) = steam_id (fst s ! k)
          \<and> tribe_id (fst t ! k) = tribe_id (fst s ! k)
          \<and> startDateTime (fst t ! k) = startDateTime (fst s ! k)
          \<and> lastLoginDateTime (fst t ! k) = lastLoginDateTime (fst s ! k)
          \<and> level (fst t ! k) = level (fst s ! k)
          \<and> (isNewPlayer (fst t ! k) = isNewPlayer (fst s ! k) \<or> isNewPlayer (fst t ! k) = 0)
          \<and> (IsAdmin cfg st (steam_id (fst s ! k)) \<longrightarrow> fst t ! k = fst s ! k))
      \<and> (\<forall>k < length (snd s).
            steam_id (snd t ! k) = steam_id (snd s ! k)
          \<and> tribe_id (snd t ! k) = tribe_id (snd s ! k)
          \<and> (isNewPlayer (snd t ! k) = isNewPlayer (snd s ! k) \<or> isNewPlayer (snd t ! k) = 0)
          \<and> (IsAdmin cfg st (steam_id (snd s ! k)) \<longrightarrow> snd t ! k = snd s ! k)))"

subsection \<open>A small server, for the closed instances\<close>

text \<open>
  Three known players of tribe 200001: the first joined a day ago, the second just
  now, the third is in the admin group. The second and the third are online.
\<close>

definition example_cfg :: config where
  "example_cfg = \<lparr>IgnoreAdmins = True, NPPAdminGroup = ''Admins'', HoursOfProtection = 24,
     MaxLevel = 50, MessageIntervalInSecs = 10,
     AllowNewPlayersToDamageEnemyStructures = False, AllowWildCorruptedDinoDamage = False,
     AllowWildDinoDamage = False, StructureExemptions = []\<rparr>"

definition example_now :: time_point where
  "example_now = 864000000000"

definition example_state :: npp_state where
  "example_state = \<lparr>
     all_players =
       [\<lparr>steam_id = 1, tribe_id = 200001, startDateTime = 0, lastLoginDateTime = 0,
          level = 1, isNewPlayer = 1\<rparr>,
        \<lparr>steam_id = 2, tribe_id = 200001, startDateTime = example_now,
          lastLoginDateTime = example_now, level = 1, isNewPlayer = 1\<rparr>,
        \<lparr>steam_id = 3, tribe_id = 200001, startDateTime = example_now,
          lastLoginDateTime = example_now, level = 1, isNewPlayer = 1\<rparr>],
     online_players =
       [\<lparr>steam_id = 2, tribe_id = 200001, startDateTime = example_now,
          lastLoginDateTime = example_now, level = 1, isNewPlayer = 1,
          nextMessageTime = example_now\<rparr>,
        \<lparr>steam_id = 3, tribe_id = 200001, startDateTime = example_now,
          lastLoginDateTime = example_now, level = 1, isNewPlayer = 1,
          nextMessageTime = example_now\<rparr>],
     PermissionsMap = [3 \<mapsto> [''Admins'']],
     pveTribesList = [],
     removedPveTribesList = []\<rparr>"

text \<open>A tracker with empty lists, and a day of logins and logouts.\<close>

definition empty_tracker :: npp_state where
  "empty_tracker = \<lparr>all_players = [], online_players = [], PermissionsMap = Map.empty,
     pveTribesList = [], removedPveTribesList = []\<rparr>"

definition example_ops :: "tracker_op list" where
  "example_ops =
     [Op_AddNewPlayer 5 7 200002, Op_AddOnlinePlayer 6 7 0, Op_AddNewPlayer 9 7 3,
      Op_AddOnlinePlayer 10 7 200002, Op_AddPlayerFromDB 8 200002 1 2 30 0,
      Op_AddOnlinePlayer 10 8 200002, Op_AddPlayerFromDB 8 200002 1 2 30 0,
      Op_RemovePlayer 7]"

definition example_save_state :: npp_state where
  "example_save_state = empty_tracker\<lparr>
     all_players := [\<lparr>steam_id = 7, tribe_id = 200002, startDateTime = 5,
        lastLoginDateTime = 6, level = 1, isNewPlayer = 1\<rparr>],
     pveTribesList := [200001],
     removedPveTribesList := [200002, 200003]\<rparr>"

text \<open>
  What happens on the server in the seconds after player 2 was told: player 9 logs in,
  the hook asks again for player 2 and for player 3, protection expires, player 3 logs
  out and player 2's login is handled once more. In \<open>example_relog\<close> player 2 logs
  out and in again.
\<close>

definition example_steps :: "tracker_step list" where
  "example_steps =
     [Step_op (Op_AddOnlinePlayer (example_now + 5) 9 200009),
      Step_IsNextMessageReady (example_now + 50000000) 2,
      Step_IsNextMessageReady (example_now + 50000000) 3,
      Step_RemoveExpired (example_now + 60000000),
      Step_op (Op_RemovePlayer 3),
      Step_op (Op_AddOnlinePlayer (example_now + 70000000) 2 0)]"

definition example_relog :: "tracker_step list" where
  "example_relog =
     [Step_op (Op_RemovePlayer 2),
      Step_op (Op_AddOnlinePlayer (example_now + 10000000) 2 200001)]"

text \<open>
  Its engine knows the controllers of players 2 and 9 by name; player 9 has never been
  seen by the tracker.
\<close>

definition controller_2 :: actor where
  "controller_2 = \<lparr>actor_class = AShooterPlayerController, TargetingTeamField = 200001,
     NameField = ''PlayerController_2''\<rparr>"

definition controller_9 :: actor where
  "controller_9 = \<lparr>actor_class = AShooterPlayerController, TargetingTeamField = 200009,
     NameField = ''PlayerController_9''\<rparr>"

definition example_engine :: engine where
  "example_engine = \<lparr>
     GetSteamIdFromController =
       (\<lambda>c. case c of None \<Rightarrow> 0
            | Some a \<Rightarrow> if a = controller_2 then 2 else if a = controller_9 then 9 else 0),
     FindPlayerFromSteamId =
       (\<lambda>sid. if sid = 2 then Some controller_2 else if sid = 9 then Some controller_9 else None),
     IsPlayerDead = (\<lambda>c. c = None),
     GetBlueprint = NameField\<rparr>"

definition structure_of_tribe :: "cint \<Rightarrow> actor" where
  "structure_of_tribe t = \<lparr>actor_class = OtherClass, TargetingTeamField = t,
     NameField = ''StorageBox_Small_C''\<rparr>"

definition weapon_of_tribe :: "cint \<Rightarrow> actor" where
  "weapon_of_tribe t = \<lparr>actor_class = OtherClass, TargetingTeamField = t,
     NameField = ''PrimalItem_WeaponC4_C''\<rparr>"

text \<open>
  A host with API version 3 and a manager that has loaded the plugin \<open>Shop\<close>, whose
  directory holds a new library. In \<open>example_manager_newer\<close> the plugin's
  \<open>PluginInfo.json\<close> asks for API version 4; in \<open>example_manager_ill_typed\<close> the
  \<open>PluginInfo.json\<close> of \<open>Kits\<close> has a number for \<open>FullName\<close>.
\<close>

definition example_host :: host where
  "example_host = \<lparr>
     GetCurrentDir = ''C:/ark'',
     API_VERSION = 3,
     LoadLibraryA = (\<lambda>fs path. case fs path of None \<Rightarrow> None | Some content \<Rightarrow> Some (length content)),
     FreeLibrary = (\<lambda>handle. True),
     parse_json = (\<lambda>text.
        if text = ''{MinApiVersion: 4}'' then Some (empty_json\<lparr>json_MinApiVersion := Value 4\<rparr>)
        else if text = ''{FullName: 5}'' then Some (empty_json\<lparr>json_FullName := Ill_typed\<rparr>)
        else if text = ''{}'' then Some empty_json
        else None),
     copy_goes_through = (\<lambda>fs from to. True),
     remove_goes_through = (\<lambda>fs path. True)\<rparr>"

definition shop_plugin :: Plugin where
  "shop_plugin = \<lparr>h_module = 3, name = ''Shop'', full_name = [], description = ''No description'',
     version = 1, min_api_version = 0, dependencies = []\<rparr>"

definition example_manager :: PluginManager where
  "example_manager = \<lparr>
     loaded_plugins = [shop_plugin],
     files = [''C:/ark/ArkApi/Plugins/Shop/Shop.dll'' \<mapsto> ''old'',
              ''C:/ark/ArkApi/Plugins/Shop/Shop.dll.ArkApi'' \<mapsto> ''newer'',
              ''C:/ark/ArkApi/Plugins/Kits/Kits.dll'' \<mapsto> ''kits''],
     save_world_before_reload = True,
     reload_sleep_seconds = 5,
     next_reload_check = 0,
     events = []\<rparr>"

definition example_manager_newer :: PluginManager where
  "example_manager_newer = example_manager\<lparr>files :=
     (files example_manager)(''C:/ark/ArkApi/Plugins/Shop/PluginInfo.json'' \<mapsto> ''{MinApiVersion: 4}'')\<rparr>"

definition example_manager_ill_typed :: PluginManager where
  "example_manager_ill_typed = example_manager\<lparr>files :=
     (files example_manager)(''C:/ark/ArkApi/Plugins/Kits/PluginInfo.json'' \<mapsto> ''{FullName: 5}'')\<rparr>"

definition shop_entry :: dir_entry where
  "shop_entry = \<lparr>generic_string = ''C:/ark/ArkApi/Plugins/Shop'', is_directory = True,
     stem = ''Shop''\<rparr>"

definition kits_entry :: dir_entry where
  "kits_entry = \<lparr>generic_string = ''C:/ark/ArkApi/Plugins/Kits'', is_directory = True,
     stem = ''Kits''\<rparr>"

text \<open>
  A store that keeps the statements that took effect, and answers the query from the
  rows of \<open>PVE_Tribes\<close> among them, the last row for a tribe id counting. The second
  store has lost its \<open>Players\<close> table and refuses every insert into it; the third is
  locked and refuses everything.
\<close>

fun protected_rows :: "sql_stmt list \<Rightarrow> uint64 list" where
  "protected_rows [] = []"
| "protected_rows (INSERT_OR_REPLACE_PVE_Tribes tid flag # stmts) =
     (if flag then [tid] else []) @ filter (\<lambda>t. t \<noteq> tid) (protected_rows stmts)"
| "protected_rows (stmt # stmts) = protected_rows stmts"

definition example_store :: "sql_stmt list sql_store" where
  "example_store = \<lparr>
     execute = (\<lambda>stmt db. Some (db @ [stmt])),
     select_protected_tribes = (\<lambda>db. (protected_rows (rev db), True))\<rparr>"

definition example_store_without_players :: "sql_stmt list sql_store" where
  "example_store_without_players = \<lparr>
     execute = (\<lambda>stmt db. case stmt of INSERT_OR_REPLACE_Players row \<Rightarrow> None
                          | _ \<Rightarrow> Some (db @ [stmt])),
     select_protected_tribes = (\<lambda>db. (protected_rows (rev db), True))\<rparr>"

definition example_store_locked :: "sql_stmt list sql_store" where
  "example_store_locked = \<lparr>
     execute = (\<lambda>stmt db. None),
     select_protected_tribes = (\<lambda>db. ([], False))\<rparr>"


chapter \<open>Properties\<close>

section \<open>Expiry of protection\<close>

lemma expire_rel_refl: "expire_rel cfg st s s"
  by (simp add: expire_rel_def)

lemma expire_rel_trans: "expire_rel cfg st s t \<Longrightarrow> expire_rel cfg st t u \<Longrightarrow> expire_rel cfg st s u"
  unfolding expire_rel_def by (intro conjI allI impI; (simp; fail)?) (metis)+

lemma expire_step_rel: "i < length (fst s) \<Longrightarrow> expire_rel cfg st s (expire_step cfg st e i s)"
  by (auto simp: expire_rel_def expire_step_def Let_def nth_list_update)

lemma expire_rel_length: "expire_rel cfg st s t \<Longrightarrow> length (fst t) = length (fst s)"
  by (simp add: expire_rel_def)

lemma expire_fold_rel:
  "\<forall>i \<in> set is. i < length (fst s) \<Longrightarrow> expire_rel cfg st s (fold (expire_step cfg st e) is s)"
proof (induction "is" arbitrary: s)
  case Nil
  show ?case by (simp add: expire_rel_refl)
next
  case (Cons i "is")
  have 1: "expire_rel cfg st s (expire_step cfg st e i s)"
    using Cons.prems by (simp add: expire_step_rel)
  have "\<forall>k \<in> set is. k < length (fst (expire_step cfg st e i s))"
    using Cons.prems expire_rel_length [OF 1] by simp
  then have "expire_rel cfg st (expire_step cfg st e i s) (fold (expire_step cfg st e) is (expire_step cfg st e i s))"
    by (rule Cons.IH)
  with 1 show ?case by (auto intro: expire_rel_trans)
qed

lemma protection_over_rel:
  "expire_rel cfg st s t \<Longrightarrow> j < length (fst s) \<Longrightarrow> protection_over cfg e (fst s ! j)
     \<Longrightarrow> protection_over cfg e (fst t ! j)"
  unfolding expire_rel_def protection_over_def by metis

lemma expire_step_zero:
  assumes "j < length (fst s)" "protection_over cfg e (fst s ! j)"
    "\<not> IsAdmin cfg st (steam_id (fst s ! j))" "t = expire_step cfg st e j s"
  shows "isNewPlayer (fst t ! j) = 0"
    and "\<forall>k < length (fst s). tribe_id (fst s ! k) = tribe_id (fst s ! j)
            \<and> \<not> IsAdmin cfg st (steam_id (fst s ! k)) \<longrightarrow> isNewPlayer (fst t ! k) = 0"
    and "\<forall>k < length (snd s). (steam_id (snd s ! k) = steam_id (fst s ! j) \<or> tribe_id (snd s ! k) = tribe_id (fst s ! j))
            \<and> \<not> IsAdmin cfg st (steam_id (snd s ! k)) \<longrightarrow> isNewPlayer (snd t ! k) = 0"
  using assms by (auto simp: expire_step_def Let_def nth_list_update)

lemma sint_sub64: "fits64 (sint a - sint b) \<Longrightarrow> sint (a - b :: 64 word) = sint a - sint b"
  by (simp add: sint_word_ariths fits64_def signed_take_bit_int_eq_self)

lemma sint_add64: "fits64 (sint a + sint b) \<Longrightarrow> sint (a + b :: 64 word) = sint a + sint b"
  by (simp add: sint_word_ariths fits64_def signed_take_bit_int_eq_self)

lemma sint_mult64: "fits64 (sint a * sint b) \<Longrightarrow> sint (a * b :: 64 word) = sint a * sint b"
  by (simp add: sint_word_ariths fits64_def signed_take_bit_int_eq_self)

lemma sint_scast_cint: "sint (scast (n :: cint) :: 64 word) = sint n"
  by (simp add: sint_up_scast is_up)

lemma sint_hours:
  "fits64 (sint n * 3600 * ticks_per_second) \<Longrightarrow> sint (hours n) = sint n * 3600 * ticks_per_second"
  using sint_mult64 [of "scast n" 36000000000]
  by (simp add: hours_def sint_scast_cint ticks_per_second_def mult.commute)

lemma duration_cast_seconds_nonpos: "sint d \<le> 0 \<Longrightarrow> duration_cast_seconds d \<le> 0"
  by (simp add: duration_cast_seconds_def ticks_per_second_def mult_le_0_iff sgn_if
        pos_imp_zdiv_nonneg_iff)

lemma expired_in_range:
  assumes "fits64 (sint H * 3600 * ticks_per_second)"
    and "fits64 (sint now - sint H * 3600 * ticks_per_second)"
    and "fits64 (sint start - (sint now - sint H * 3600 * ticks_per_second))"
    and "sint start \<le> sint now - sint H * 3600 * ticks_per_second"
  shows "duration_cast_seconds (start - (now - hours H)) \<le> 0"
proof -
  have e: "sint (now - hours H) = sint now - sint H * 3600 * ticks_per_second"
    using assms(1,2) by (simp add: sint_sub64 sint_hours)
  have "sint (start - (now - hours H)) = sint start - (sint now - sint H * 3600 * ticks_per_second)"
    using assms(3) by (simp add: sint_sub64 e)
  with assms(4) show ?thesis by (intro duration_cast_seconds_nonpos) simp
qed

lemma expire_fold_zero:
  assumes j: "j < length (fst s)" and po: "protection_over cfg e (fst s ! j)"
    and na: "\<not> IsAdmin cfg st (steam_id (fst s ! j))"
    and t: "t = fold (expire_step cfg st e) [0..<length (fst s)] s"
  shows "isNewPlayer (fst t ! j) = 0"
    and "\<forall>k < length (fst s). tribe_id (fst s ! k) = tribe_id (fst s ! j)
            \<and> \<not> IsAdmin cfg st (steam_id (fst s ! k)) \<longrightarrow> isNewPlayer (fst t ! k) = 0"
    and "\<forall>k < length (snd s). (steam_id (snd s ! k) = steam_id (fst s ! j) \<or> tribe_id (snd s ! k) = tribe_id (fst s ! j))
            \<and> \<not> IsAdmin cfg st (steam_id (snd s ! k)) \<longrightarrow> isNewPlayer (snd t ! k) = 0"
proof -
  define n where "n = length (fst s)"
  define s1 where "s1 = fold (expire_step cfg st e) [0..<j] s"
  define s2 where "s2 = expire_step cfg st e j s1"
  have split: "[0..<n] = [0..<j] @ j # [Suc j..<n]"
    using j unfolding n_def by (metis less_imp_le_nat upt_add_eq_append upt_conv_Cons le0 le_add_diff_inverse)
  have t': "t = fold (expire_step cfg st e) [Suc j..<n] s2"
    unfolding t n_def [symmetric] split s2_def s1_def by simp
  have r01: "expire_rel cfg st s s1"
    unfolding s1_def using j by (intro expire_fold_rel) simp
  have len1: "length (fst s1) = length (fst s)" and lon1: "length (snd s1) = length (snd s)"
    using r01 by (simp_all add: expire_rel_def)
  have r12: "expire_rel cfg st s1 s2"
    unfolding s2_def using j len1 by (simp add: expire_step_rel)
  have len2: "length (fst s2) = length (fst s)" and lon2: "length (snd s2) = length (snd s)"
    using r12 len1 lon1 by (simp_all add: expire_rel_def)
  have r23: "expire_rel cfg st s2 t"
    unfolding t' using len2 by (intro expire_fold_rel) (simp add: n_def)
  have j1: "j < length (fst s1)" using j len1 by simp
  have po1: "protection_over cfg e (fst s1 ! j)"
    using protection_over_rel [OF r01 j po] .
  have same_all: "\<And>k. k < length (fst s) \<Longrightarrow>
      steam_id (fst s1 ! k) = steam_id (fst s ! k) \<and> tribe_id (fst s1 ! k) = tribe_id (fst s ! k)"
    using r01 by (simp add: expire_rel_def)
  have same_on: "\<And>k. k < length (snd s) \<Longrightarrow>
      steam_id (snd s1 ! k) = steam_id (snd s ! k) \<and> tribe_id (snd s1 ! k) = tribe_id (snd s ! k)"
    using r01 by (simp add: expire_rel_def)
  have na1: "\<not> IsAdmin cfg st (steam_id (fst s1 ! j))"
    using na same_all [OF j] by simp
  note z = expire_step_zero [OF j1 po1 na1 s2_def]
  have keep_all: "\<And>k. k < length (fst s) \<Longrightarrow> isNewPlayer (fst s2 ! k) = 0 \<Longrightarrow> isNewPlayer (fst t ! k) = 0"
    using r23 len2 unfolding expire_rel_def by metis
  have keep_on: "\<And>k. k < length (snd s) \<Longrightarrow> isNewPlayer (snd s2 ! k) = 0 \<Longrightarrow> isNewPlayer (snd t ! k) = 0"
    using r23 lon2 unfolding expire_rel_def by metis
  show "isNewPlayer (fst t ! j) = 0"
    using z(1) keep_all [OF j] by simp
  show "\<forall>k < length (fst s). tribe_id (fst s ! k) = tribe_id (fst s ! j)
            \<and> \<not> IsAdmin cfg st (steam_id (fst s ! k)) \<longrightarrow> isNewPlayer (fst t ! k) = 0"
  proof (intro allI impI)
    fix k assume k: "k < length (fst s)"
      and h: "tribe_id (fst s ! k) = tribe_id (fst s ! j) \<and> \<not> IsAdmin cfg st (steam_id (fst s ! k))"
    have "isNewPlayer (fst s2 ! k) = 0"
      using z(2) k len1 h same_all [OF k] same_all [OF j] by simp
    then show "isNewPlayer (fst t ! k) = 0" by (rule keep_all [OF k])
  qed
  show "\<forall>k < length (snd s). (steam_id (snd s ! k) = steam_id (fst s ! j) \<or> tribe_id (snd s ! k) = tribe_id (fst s ! j))
            \<and> \<not> IsAdmin cfg st (steam_id (snd s ! k)) \<longrightarrow> isNewPlayer (snd t ! k) = 0"
  proof (intro allI impI)
    fix k assume k: "k < length (snd s)"
      and h: "(steam_id (snd s ! k) = steam_id (fst s ! j) \<or> tribe_id (snd s ! k) = tribe_id (fst s ! j))
            \<and> \<not> IsAdmin cfg st (steam_id (snd s ! k))"
    have "isNewPlayer (snd s2 ! k) = 0"
      using z(3) k lon1 h same_on [OF k] same_all [OF j] by simp
    then show "isNewPlayer (snd t ! k) = 0" by (rule keep_on [OF k])
  qed
qed

text \<open>
  C3, as amended. After \<open>RemoveExpiredTribesProtection\<close>, a record of \<open>all_players_\<close> whose
  steam id is not an admin's and which at entry had started at or before the expiry
  time (now minus \<open>HoursOfProtection\<close> hours, where the hours in ticks, the expiry time
  and its distance to the start all fit the signed 64-bit tick count), or had reached
  \<open>MaxLevel\<close>, or had \<open>isNewPlayer\<close> 0 already, has \<open>isNewPlayer\<close> 0; so has every
  non-admin record of \<open>all_players_\<close> with the same tribe id and every non-admin record
  of \<open>online_players_\<close> with the same steam id or the same tribe id. The records of
  admins are left as they were.
\<close>

theorem RemoveExpiredTribesProtection_expires:
  assumes j: "j < length (all_players st)"
    and na: "\<not> IsAdmin cfg st (steam_id (all_players st ! j))"
    and over: "(fits64 (sint (HoursOfProtection cfg) * 3600 * ticks_per_second)
                \<and> fits64 (expiry_ticks cfg now)
                \<and> fits64 (sint (startDateTime (all_players st ! j)) - expiry_ticks cfg now)
                \<and> sint (startDateTime (all_players st ! j)) \<le> expiry_ticks cfg now)
               \<or> sint (MaxLevel cfg) \<le> sint (level (all_players st ! j))
               \<or> isNewPlayer (all_players st ! j) = 0"
    and st': "st' = RemoveExpiredTribesProtection cfg now st"
  shows "isNewPlayer (all_players st' ! j) = 0
    \<and> (\<forall>k < length (all_players st).
          tribe_id (all_players st ! k) = tribe_id (all_players st ! j)
          \<and> \<not> IsAdmin cfg st (steam_id (all_players st ! k))
          \<longrightarrow> isNewPlayer (all_players st' ! k) = 0)
    \<and> (\<forall>k < length (online_players st).
          (steam_id (online_players st ! k) = steam_id (all_players st ! j)
           \<or> tribe_id (online_players st ! k) = tribe_id (all_players st ! j))
          \<and> \<not> IsAdmin cfg st (steam_id (online_players st ! k))
          \<longrightarrow> isNewPlayer (online_players st' ! k) = 0)
    \<and> length (all_players st') = length (all_players st)
    \<and> length (online_players st') = length (online_players st)
    \<and> (\<forall>k < length (all_players st).
          IsAdmin cfg st (steam_id (all_players st ! k))
          \<longrightarrow> all_players st' ! k = all_players st ! k)
    \<and> (\<forall>k < length (online_players st).
          IsAdmin cfg st (steam_id (online_players st ! k))
          \<longrightarrow> online_players st' ! k = online_players st ! k)"
proof -
  define e where "e = now - hours (HoursOfProtection cfg)"
  define s where "s = (all_players st, online_players st)"
  define t where "t = fold (expire_step cfg st e) [0..<length (fst s)] s"
  have fs: "fst s = all_players st" and ss: "snd s = online_players st"
    by (simp_all add: s_def)
  have ft: "all_players st' = fst t" and sn: "online_players st' = snd t"
    by (simp_all add: st' RemoveExpiredTribesProtection_def Let_def t_def s_def e_def)
  have po: "protection_over cfg e (fst s ! j)"
    using over
      expired_in_range [of "HoursOfProtection cfg" now "startDateTime (all_players st ! j)"]
    by (auto simp: protection_over_def fs e_def expiry_ticks_def)
  have rel: "expire_rel cfg st s t"
    unfolding t_def by (intro expire_fold_rel) simp
  note z = expire_fold_zero [of j s cfg e st t, unfolded fs ss,
      OF j po [unfolded fs] na t_def [unfolded fs]]
  have adm: "length (fst t) = length (all_players st)"
    "length (snd t) = length (online_players st)"
    "\<forall>k < length (all_players st).
          IsAdmin cfg st (steam_id (all_players st ! k)) \<longrightarrow> fst t ! k = all_players st ! k"
    "\<forall>k < length (online_players st).
          IsAdmin cfg st (steam_id (online_players st ! k)) \<longrightarrow> snd t ! k = online_players st ! k"
    using rel by (simp_all add: expire_rel_def fs ss)
  show ?thesis
    unfolding ft sn using z adm by (intro conjI)
qed

theorem RemoveExpiredTribesProtection_expires_witness:
  "0 < length (all_players example_state)
   \<and> \<not> IsAdmin example_cfg example_state (steam_id (all_players example_state ! 0))
   \<and> fits64 (sint (HoursOfProtection example_cfg) * 3600 * ticks_per_second)
   \<and> fits64 (expiry_ticks example_cfg example_now)
   \<and> fits64 (sint (startDateTime (all_players example_state ! 0))
              - expiry_ticks example_cfg example_now)
   \<and> sint (startDateTime (all_players example_state ! 0)) \<le> expiry_ticks example_cfg example_now
   \<and> isNewPlayer (all_players (RemoveExpiredTribesProtection example_cfg example_now example_state) ! 0) = 0
   \<and> isNewPlayer (all_players (RemoveExpiredTribesProtection example_cfg example_now example_state) ! 1) = 0
   \<and> isNewPlayer (online_players (RemoveExpiredTribesProtection example_cfg example_now example_state) ! 0) = 0
   \<and> all_players (RemoveExpiredTribesProtection example_cfg example_now example_state) ! 2
       = all_players example_state ! 2"
proof -
  have j: "0 < length (all_players example_state)"
    by (simp add: example_state_def)
  have na: "\<not> IsAdmin example_cfg example_state (steam_id (all_players example_state ! 0))"
    by code_simp
  have started: "fits64 (sint (HoursOfProtection example_cfg) * 3600 * ticks_per_second)"
    "fits64 (expiry_ticks example_cfg example_now)"
    "fits64 (sint (startDateTime (all_players example_state ! 0))
              - expiry_ticks example_cfg example_now)"
    "sint (startDateTime (all_players example_state ! 0)) \<le> expiry_ticks example_cfg example_now"
    by code_simp+
  then have over: "(fits64 (sint (HoursOfProtection example_cfg) * 3600 * ticks_per_second)
        \<and> fits64 (expiry_ticks example_cfg example_now)
        \<and> fits64 (sint (startDateTime (all_players example_state ! 0))
              - expiry_ticks example_cfg example_now)
        \<and> sint (startDateTime (all_players example_state ! 0))
             \<le> expiry_ticks example_cfg example_now)
      \<or> sint (MaxLevel example_cfg) \<le> sint (level (all_players example_state ! 0))
      \<or> isNewPlayer (all_players example_state ! 0) = 0"
    by simp
  have k: "1 < length (all_players example_state)" "2 < length (all_players example_state)"
    "0 < length (online_players example_state)"
    by (simp_all add: example_state_def)
  have f: "tribe_id (all_players example_state ! 1) = tribe_id (all_players example_state ! 0)"
    "\<not> IsAdmin example_cfg example_state (steam_id (all_players example_state ! 1))"
    "tribe_id (online_players example_state ! 0) = tribe_id (all_players example_state ! 0)"
    "\<not> IsAdmin example_cfg example_state (steam_id (online_players example_state ! 0))"
    "IsAdmin example_cfg example_state (steam_id (all_players example_state ! 2))"
    by code_simp+
  note T = RemoveExpiredTribesProtection_expires [OF j na over refl]
  from T have 0: "isNewPlayer (all_players (RemoveExpiredTribesProtection example_cfg
      example_now example_state) ! 0) = 0"
    by (rule conjunct1)
  from T k f have 1: "isNewPlayer (all_players (RemoveExpiredTribesProtection example_cfg
      example_now example_state) ! 1) = 0"
    by (elim conjE allE [of _ 1]) simp
  from T k f have 2: "isNewPlayer (online_players (RemoveExpiredTribesProtection example_cfg
      example_now example_state) ! 0) = 0"
    by (elim conjE allE [of _ 0]) simp
  from T k f have 3: "all_players (RemoveExpiredTribesProtection example_cfg example_now
      example_state) ! 2 = all_players example_state ! 2"
    by (elim conjE allE [of _ 2]) simp
  from j na started 0 1 2 3 show ?thesis by (intro conjI)
qed

text \<open>
  C3 as it was written has no bound on \<open>HoursOfProtection\<close>. At -300000000 hours the
  expiry time lies far in the future and every start is before it, but the hours in
  ticks do not fit 64 bits: the product wraps, the expiry time the code computes lies
  far in the past, and the player who started a day ago keeps the protection.
\<close>

theorem RemoveExpiredTribesProtection_hours_wrap:
  "\<not> IsAdmin (example_cfg\<lparr>HoursOfProtection := - 300000000\<rparr>) example_state
        (steam_id (all_players example_state ! 0))
   \<and> sint (startDateTime (all_players example_state ! 0))
        \<le> expiry_ticks (example_cfg\<lparr>HoursOfProtection := - 300000000\<rparr>) example_now
   \<and> isNewPlayer (all_players (RemoveExpiredTribesProtection
        (example_cfg\<lparr>HoursOfProtection := - 300000000\<rparr>) example_now example_state) ! 0) = 1"
  by code_simp

section \<open>Tribe protection and NPC tribe ids\<close>

text \<open>
  C10. For every tribe id less than or equal to 100000, \<open>IsTribeProtected\<close> returns
  false whatever the players' records say and even when the id is in the PVE tribes
  list: tribe protection applies only to ids strictly greater than 100000.
\<close>

theorem IsTribeProtected_npc_tribe:
  "tribeid \<le> 100000 \<Longrightarrow> IsTribeProtected cfg st tribeid = Some False"
  by (simp add: IsTribeProtected_def not_less [symmetric])

theorem IsTribeProtected_npc_tribe_witness:
  "(100000::uint64) \<le> 100000
   \<and> IsPVETribe (example_state\<lparr>pveTribesList := [100000]\<rparr>) 100000
   \<and> IsTribeProtected example_cfg (example_state\<lparr>pveTribesList := [100000]\<rparr>) 100000 = Some False"
  using IsTribeProtected_npc_tribe [of 100000 example_cfg "example_state\<lparr>pveTribesList := [100000]\<rparr>"]
  by (simp add: IsPVETribe_def)

section \<open>The damage hook\<close>

text \<open>
  C1. When the structure is not null and not exempt, the damage causer is not null,
  the instigator is a player controller whose steam id is not an admin's and whose
  player is not protected, and the attacked tribe is protected and is not the attacking
  tribe, the hook returns 0 and does not call the original \<open>TakeDamage\<close>.
\<close>

theorem TakeDamage_protected_tribe_refused:
  assumes "\<not> IsExemptStructure cfg eng structure"
    and "IsA instigator AShooterPlayerController"
    and "\<not> IsAdmin cfg st (GetSteamIdFromController eng (Some instigator))"
    and "\<not> IsPlayerProtected cfg eng st
           (FindPlayerFromSteamId eng (GetSteamIdFromController eng (Some instigator)))"
    and "IsTribeProtected cfg st (tribe_of structure) = Some True"
    and "tribe_of structure \<noteq> tribe_of causer"
  shows "map_option fst (Hook_APrimalStructure_TakeDamage cfg eng now st
           (Some structure) (Some instigator) (Some causer)) = Some Zero"
  using assms
  by (simp add: Hook_APrimalStructure_TakeDamage_def damage_by_player_def refuse_and_tell_def
        wild_dino_allowed_def IsA_def tribe_of_def Let_def)

theorem TakeDamage_protected_tribe_refused_witness:
  "\<not> IsExemptStructure example_cfg example_engine (structure_of_tribe 200001)
   \<and> IsA controller_9 AShooterPlayerController
   \<and> \<not> IsAdmin example_cfg example_state (GetSteamIdFromController example_engine (Some controller_9))
   \<and> \<not> IsPlayerProtected example_cfg example_engine example_state
         (FindPlayerFromSteamId example_engine
            (GetSteamIdFromController example_engine (Some controller_9)))
   \<and> IsTribeProtected example_cfg example_state (tribe_of (structure_of_tribe 200001)) = Some True
   \<and> tribe_of (structure_of_tribe 200001) \<noteq> tribe_of (weapon_of_tribe 200009)
   \<and> map_option fst (Hook_APrimalStructure_TakeDamage example_cfg example_engine example_now
        example_state (Some (structure_of_tribe 200001)) (Some controller_9)
        (Some (weapon_of_tribe 200009))) = Some Zero"
proof -
  have h: "\<not> IsExemptStructure example_cfg example_engine (structure_of_tribe 200001)"
    "IsA controller_9 AShooterPlayerController"
    "\<not> IsAdmin example_cfg example_state (GetSteamIdFromController example_engine (Some controller_9))"
    "\<not> IsPlayerProtected example_cfg example_engine example_state
         (FindPlayerFromSteamId example_engine
            (GetSteamIdFromController example_engine (Some controller_9)))"
    "IsTribeProtected example_cfg example_state (tribe_of (structure_of_tribe 200001)) = Some True"
    "tribe_of (structure_of_tribe 200001) \<noteq> tribe_of (weapon_of_tribe 200009)"
    by code_simp+
  show ?thesis
    using TakeDamage_protected_tribe_refused [OF h, of example_now] h by simp
qed

text \<open>
  C2, as amended. When the structure is not null and not exempt, the damage causer is
  not null, the instigator is a player controller whose steam id is not an admin's and
  whose player is protected, and \<open>AllowNewPlayersToDamageEnemyStructures\<close> is off: the
  hook returns the result of the original \<open>TakeDamage\<close> if the attacked tribe id is below
  100000 or is the attacking tribe id, and returns 0 otherwise.
\<close>

theorem TakeDamage_by_new_player:
  assumes "\<not> IsExemptStructure cfg eng structure"
    and "IsA instigator AShooterPlayerController"
    and "\<not> IsAdmin cfg st (GetSteamIdFromController eng (Some instigator))"
    and "IsPlayerProtected cfg eng st
           (FindPlayerFromSteamId eng (GetSteamIdFromController eng (Some instigator)))"
    and "\<not> AllowNewPlayersToDamageEnemyStructures cfg"
  shows "map_option fst (Hook_APrimalStructure_TakeDamage cfg eng now st
           (Some structure) (Some instigator) (Some causer))
         = Some (if tribe_of structure < 100000 \<or> tribe_of structure = tribe_of causer
                 then Original_result else Zero)"
  using assms
  by (simp add: Hook_APrimalStructure_TakeDamage_def damage_by_player_def refuse_and_tell_def
        wild_dino_allowed_def IsA_def tribe_of_def Let_def)

theorem TakeDamage_by_new_player_witness:
  "\<not> IsExemptStructure example_cfg example_engine (structure_of_tribe 300000)
   \<and> IsA controller_2 AShooterPlayerController
   \<and> \<not> IsAdmin example_cfg example_state (GetSteamIdFromController example_engine (Some controller_2))
   \<and> IsPlayerProtected example_cfg example_engine example_state
         (FindPlayerFromSteamId example_engine
            (GetSteamIdFromController example_engine (Some controller_2)))
   \<and> \<not> AllowNewPlayersToDamageEnemyStructures example_cfg
   \<and> map_option fst (Hook_APrimalStructure_TakeDamage example_cfg example_engine example_now
        example_state (Some (structure_of_tribe 300000)) (Some controller_2)
        (Some (weapon_of_tribe 200001))) = Some Zero
   \<and> map_option fst (Hook_APrimalStructure_TakeDamage example_cfg example_engine example_now
        example_state (Some (structure_of_tribe 300000)) (Some controller_2)
        (Some (weapon_of_tribe 300000))) = Some Original_result"
proof -
  have h: "\<not> IsExemptStructure example_cfg example_engine (structure_of_tribe 300000)"
    "IsA controller_2 AShooterPlayerController"
    "\<not> IsAdmin example_cfg example_state (GetSteamIdFromController example_engine (Some controller_2))"
    "IsPlayerProtected example_cfg example_engine example_state
         (FindPlayerFromSteamId example_engine
            (GetSteamIdFromController example_engine (Some controller_2)))"
    "\<not> AllowNewPlayersToDamageEnemyStructures example_cfg"
    by code_simp+
  have t: "\<not> tribe_of (structure_of_tribe 300000) < 100000"
    "tribe_of (structure_of_tribe 300000) \<noteq> tribe_of (weapon_of_tribe 200001)"
    "tribe_of (structure_of_tribe 300000) = tribe_of (weapon_of_tribe 300000)"
    by code_simp+
  show ?thesis
    using TakeDamage_by_new_player [OF h, of example_now "weapon_of_tribe 200001"]
      TakeDamage_by_new_player [OF h, of example_now "weapon_of_tribe 300000"] h t
    by simp
qed

text \<open>
  C2 as it was written says nothing of the damage causer. With a null damage causer
  there is no attacking tribe, and a protected player's hit on a structure of tribe
  300000, which nobody protects, is passed to the original \<open>TakeDamage\<close>.
\<close>

theorem TakeDamage_by_new_player_null_causer:
  "\<not> IsExemptStructure (example_cfg\<lparr>IgnoreAdmins := False\<rparr>) example_engine
       (structure_of_tribe 300000)
   \<and> IsA controller_2 AShooterPlayerController
   \<and> \<not> IsAdmin (example_cfg\<lparr>IgnoreAdmins := False\<rparr>) example_state
         (GetSteamIdFromController example_engine (Some controller_2))
   \<and> IsPlayerProtected (example_cfg\<lparr>IgnoreAdmins := False\<rparr>) example_engine example_state
         (FindPlayerFromSteamId example_engine
            (GetSteamIdFromController example_engine (Some controller_2)))
   \<and> \<not> AllowNewPlayersToDamageEnemyStructures (example_cfg\<lparr>IgnoreAdmins := False\<rparr>)
   \<and> \<not> tribe_of (structure_of_tribe 300000) < 100000
   \<and> map_option tribe_of None \<noteq> Some (tribe_of (structure_of_tribe 300000))
   \<and> map_option fst (Hook_APrimalStructure_TakeDamage (example_cfg\<lparr>IgnoreAdmins := False\<rparr>)
        example_engine example_now example_state (Some (structure_of_tribe 300000))
        (Some controller_2) None) = Some Original_result"
  by code_simp

section \<open>The tracker's lists\<close>

lemma stamp_login_steam: "map steam_id (fst (stamp_login sid t ds)) = map steam_id ds"
  by (induction ds) (auto simp: Let_def)

lemma erase_first_subset: "set (erase_first p ds) \<subseteq> set ds"
  by (induction ds) auto

lemma erase_first_distinct: "distinct (map f ds) \<Longrightarrow> distinct (map f (erase_first p ds))"
proof (induction ds)
  case Nil
  show ?case by simp
next
  case (Cons d ds)
  have "f d \<notin> f ` set (erase_first p ds)"
    using Cons.prems erase_first_subset [of p ds] by auto
  with Cons show ?case by simp
qed

lemma erase_first_filter: "distinct (map f ds) \<Longrightarrow> erase_first (\<lambda>d. f d = k) ds = filter (\<lambda>d. f d \<noteq> k) ds"
proof (induction ds)
  case Nil
  show ?case by simp
next
  case (Cons d ds)
  show ?case
  proof (cases "f d = k")
    case True
    then have "k \<notin> f ` set ds" using Cons.prems by simp
    then have "\<forall>x \<in> set ds. f x \<noteq> k" by blast
    then have "filter (\<lambda>d. f d \<noteq> k) ds = ds" by (simp add: filter_id_conv)
    with True show ?thesis by simp
  next
    case False
    with Cons show ?thesis by simp
  qed
qed

lemma apply_tracker_op_distinct: "ids_distinct st \<Longrightarrow> ids_distinct (apply_tracker_op op st)"
  by (cases op)
     (auto simp: ids_distinct_def AddNewPlayer_def AddPlayerFromDB_def AddOnlinePlayer_def
        RemovePlayer_def Let_def list_ex_iff stamp_login_steam erase_first_distinct
        split: option.splits)

lemma run_tracker_ops_distinct: "ids_distinct st \<Longrightarrow> ids_distinct (run_tracker_ops ops st)"
  unfolding run_tracker_ops_def
  by (induction ops arbitrary: st) (simp_all add: apply_tracker_op_distinct)

text \<open>
  C9. Whatever sequence of \<open>AddNewPlayer\<close>, \<open>AddPlayerFromDB\<close>, \<open>AddOnlinePlayer\<close> and
  \<open>RemovePlayer\<close> runs from empty lists, no two records of \<open>all_players_\<close> have the same
  steam id and no two records of \<open>online_players_\<close> have the same steam id; an \<open>Add\<close>
  that finds the steam id in its list returns and changes nothing.
\<close>

theorem tracker_steam_ids_distinct:
  assumes "all_players st = []" and "online_players st = []"
  shows "distinct (map steam_id (all_players (run_tracker_ops ops st)))
    \<and> distinct (map steam_id (online_players (run_tracker_ops ops st)))
    \<and> (\<forall>s now sid tid. sid \<in> steam_id ` set (all_players s)
          \<longrightarrow> AddNewPlayer now s sid tid = s)
    \<and> (\<forall>s sid tid start login lvl isNew. sid \<in> steam_id ` set (all_players s)
          \<longrightarrow> AddPlayerFromDB s sid tid start login lvl isNew = s)
    \<and> (\<forall>s now sid tid. sid \<in> steam_id ` set (online_players s)
          \<longrightarrow> AddOnlinePlayer now s sid tid = s)"
proof -
  have "ids_distinct st" using assms by (simp add: ids_distinct_def)
  then have "ids_distinct (run_tracker_ops ops st)" by (rule run_tracker_ops_distinct)
  then show ?thesis
    by (auto simp: ids_distinct_def AddNewPlayer_def AddPlayerFromDB_def AddOnlinePlayer_def
          list_ex_iff)
qed

theorem tracker_steam_ids_distinct_witness:
  "all_players empty_tracker = [] \<and> online_players empty_tracker = []
   \<and> map steam_id (all_players (run_tracker_ops example_ops empty_tracker)) = [7, 8]
   \<and> map steam_id (online_players (run_tracker_ops example_ops empty_tracker)) = [8]
   \<and> distinct (map steam_id (all_players (run_tracker_ops example_ops empty_tracker)))
   \<and> distinct (map steam_id (online_players (run_tracker_ops example_ops empty_tracker)))
   \<and> AddNewPlayer 11 (run_tracker_ops example_ops empty_tracker) 7 200003
       = run_tracker_ops example_ops empty_tracker"
proof -
  have e: "all_players empty_tracker = []" "online_players empty_tracker = []"
    by (simp_all add: empty_tracker_def)
  have r: "map steam_id (all_players (run_tracker_ops example_ops empty_tracker)) = [7, 8]"
    "map steam_id (online_players (run_tracker_ops example_ops empty_tracker)) = [8]"
    by code_simp+
  have "set (map steam_id (all_players (run_tracker_ops example_ops empty_tracker))) = {7, 8}"
    unfolding r by simp
  then have known: "7 \<in> steam_id ` set (all_players (run_tracker_ops example_ops empty_tracker))"
    by simp
  note T = tracker_steam_ids_distinct [OF e, of example_ops]
  note 1 = T [THEN conjunct1]
  note 2 = T [THEN conjunct2, THEN conjunct1]
  note A = T [THEN conjunct2, THEN conjunct2, THEN conjunct1, rule_format,
      of 7 "run_tracker_ops example_ops empty_tracker" 11 200003]
  from e r 1 2 A [OF known] show ?thesis by (intro conjI)
qed

section \<open>The logout hook\<close>

text \<open>
  C8. \<open>Hook_AShooterGameMode_Logout\<close> removes the leaving player's record from the online
  list and the player's entry from \<open>PermissionsMap\<close>, then calls the original \<open>Logout\<close>;
  \<open>all_players_\<close> is as before. The online list holds at most one record for a steam
  id, as shown above for the lists the tracker builds.
\<close>

theorem Logout_removes_online_player:
  assumes "distinct (map steam_id (online_players st))"
  shows "Hook_AShooterGameMode_Logout eng st exiting =
    (st\<lparr>online_players :=
           filter (\<lambda>d. steam_id d \<noteq> GetSteamIdFromController eng exiting) (online_players st),
        PermissionsMap := (PermissionsMap st)(GetSteamIdFromController eng exiting := None)\<rparr>,
     [Call_Logout_original])
    \<and> GetSteamIdFromController eng exiting
         \<notin> steam_id ` set (online_players (fst (Hook_AShooterGameMode_Logout eng st exiting)))
    \<and> PermissionsMap (fst (Hook_AShooterGameMode_Logout eng st exiting))
         (GetSteamIdFromController eng exiting) = None
    \<and> all_players (fst (Hook_AShooterGameMode_Logout eng st exiting)) = all_players st"
proof -
  let ?sid = "GetSteamIdFromController eng exiting"
  have "online_players (RemovePlayer st ?sid)
      = filter (\<lambda>d. steam_id d \<noteq> ?sid) (online_players st)"
  proof (cases "list_ex (\<lambda>d. steam_id d = ?sid) (online_players st)")
    case True
    then show ?thesis
      using erase_first_filter [OF assms, of ?sid] by (simp add: RemovePlayer_def)
  next
    case False
    then have "filter (\<lambda>d. steam_id d \<noteq> ?sid) (online_players st) = online_players st"
      by (simp add: list_ex_iff filter_id_conv)
    with False show ?thesis by (simp add: RemovePlayer_def)
  qed
  moreover have "RemovePlayer st ?sid
      = st\<lparr>online_players := online_players (RemovePlayer st ?sid)\<rparr>"
    by (simp add: RemovePlayer_def)
  ultimately have "Hook_AShooterGameMode_Logout eng st exiting =
    (st\<lparr>online_players := filter (\<lambda>d. steam_id d \<noteq> ?sid) (online_players st),
        PermissionsMap := (PermissionsMap st)(?sid := None)\<rparr>,
     [Call_Logout_original])"
    by (simp add: Hook_AShooterGameMode_Logout_def Let_def)
  then show ?thesis by auto
qed

theorem Logout_removes_online_player_witness:
  "distinct (map steam_id (online_players example_state))
   \<and> GetSteamIdFromController example_engine (Some controller_2) = 2
   \<and> map steam_id (online_players example_state) = [2, 3]
   \<and> map steam_id (online_players
        (fst (Hook_AShooterGameMode_Logout example_engine example_state (Some controller_2)))) = [3]
   \<and> all_players (fst (Hook_AShooterGameMode_Logout example_engine example_state
        (Some controller_2))) = all_players example_state"
proof -
  have d: "distinct (map steam_id (online_players example_state))"
    by code_simp
  have s: "GetSteamIdFromController example_engine (Some controller_2) = 2"
    "map steam_id (online_players example_state) = [2, 3]"
    by code_simp+
  have f: "map steam_id (filter (\<lambda>d. steam_id d \<noteq> 2) (online_players example_state)) = [3]"
    by (simp add: example_state_def)
  show ?thesis
    using Logout_removes_online_player [OF d, of example_engine "Some controller_2"] d s f
    by simp
qed

section \<open>Message throttling\<close>

lemma duration_cast_seconds_pos: "ticks_per_second \<le> sint d \<Longrightarrow> 0 < duration_cast_seconds d"
  by (simp add: duration_cast_seconds_def ticks_per_second_def sgn_if pos_imp_zdiv_pos_iff)

lemma second_before_waits: "second_before next t \<Longrightarrow> \<not> duration_cast_seconds (next - t) \<le> 0"
  using duration_cast_seconds_pos [of "next - t"]
  by (simp add: second_before_def sint_sub64 not_le)

lemma next_message_scan_answer:
  "fst (next_message_scan cfg t sid ds)
   = (case map_of (timers ds) sid of
        None \<Rightarrow> True
      | Some next \<Rightarrow> duration_cast_seconds (next - t) \<le> 0)"
  by (induction ds) (simp_all add: timers_def Let_def)

lemma next_message_scan_timers:
  "map_of (timers (snd (next_message_scan cfg t sid ds))) k
   = (if k = sid \<and> (\<exists>next. map_of (timers ds) sid = Some next
                          \<and> duration_cast_seconds (next - t) \<le> 0)
      then Some (t + seconds (MessageIntervalInSecs cfg))
      else map_of (timers ds) k)"
  by (induction ds) (auto simp: timers_def Let_def)

lemma next_message_scan_idle:
  "\<not> fst (next_message_scan cfg t sid ds) \<Longrightarrow> snd (next_message_scan cfg t sid ds) = ds"
  by (induction ds) (auto simp: Let_def split: if_splits)

lemma erase_first_timers:
  "r \<noteq> k \<Longrightarrow> map_of (timers (erase_first (\<lambda>d. steam_id d = r) ds)) k = map_of (timers ds) k"
  by (induction ds) (auto simp: timers_def)

lemma timers_append_keeps:
  "map_of (timers ds) k = Some next \<Longrightarrow> map_of (timers (ds @ es)) k = Some next"
  by (simp add: timers_def map_add_Some_iff)

lemma expire_step_timers: "timers (snd (expire_step cfg st e i s)) = timers (snd s)"
  by (simp add: expire_step_def Let_def timers_def comp_def)

lemma expire_fold_timers: "timers (snd (fold (expire_step cfg st e) is s)) = timers (snd s)"
  by (induction "is" arbitrary: s) (simp_all add: expire_step_timers)

lemma RemoveExpired_timers:
  "timers (online_players (RemoveExpiredTribesProtection cfg t st)) = timers (online_players st)"
  by (simp add: RemoveExpiredTribesProtection_def Let_def expire_fold_timers)

lemma apply_tracker_step_waits:
  assumes "map_of (timers (online_players st)) sid = Some next" "lets_wait sid next step"
  shows "map_of (timers (online_players (apply_tracker_step cfg step st))) sid = Some next"
proof (cases step)
  case (Step_op op)
  with assms show ?thesis
    by (cases op)
       (auto simp: AddNewPlayer_def AddPlayerFromDB_def AddOnlinePlayer_def RemovePlayer_def
          Let_def erase_first_timers timers_append_keeps)
next
  case (Step_IsNextMessageReady t s)
  with assms show ?thesis
    by (auto simp: IsNextMessageReady_def Let_def next_message_scan_timers
          dest: second_before_waits)
next
  case (Step_RemoveExpired t)
  with assms show ?thesis by (simp add: RemoveExpired_timers)
qed

lemma run_tracker_steps_waits:
  assumes "map_of (timers (online_players st)) sid = Some next"
    "\<forall>step \<in> set steps. lets_wait sid next step"
  shows "map_of (timers (online_players (run_tracker_steps cfg steps st))) sid = Some next"
  using assms unfolding run_tracker_steps_def
  by (induction steps arbitrary: st) (simp_all add: apply_tracker_step_waits)

lemma online_has_timer: "sid \<in> steam_id ` set ds \<Longrightarrow> \<exists>next. map_of (timers ds) sid = Some next"
  by (induction ds) (auto simp: timers_def)

lemma map_of_timers_find:
  "map_of (timers ds) sid = Some next
   \<Longrightarrow> \<exists>d. find (\<lambda>d. steam_id d = sid) ds = Some d \<and> nextMessageTime d = next"
  by (induction ds) (auto simp: timers_def split: if_splits)

lemma sint_seconds: "sint (seconds n) = sint n * ticks_per_second"
proof -
  have "- (2 ^ 31) \<le> sint n" "sint n < 2 ^ 31"
    using sint_ge [of n] sint_lt [of n] by simp_all
  then have "fits64 (sint (scast n :: 64 word) * sint (10000000 :: 64 word))"
    by (simp add: fits64_def sint_scast_cint)
  from sint_mult64 [OF this] show ?thesis
    by (simp add: seconds_def sint_scast_cint ticks_per_second_def)
qed

text \<open>
  C4, as amended. For a steam id in the online list, a call of \<open>IsNextMessageReady\<close>
  that returns true sets that player's \<open>nextMessageTime\<close> to now plus
  \<open>MessageIntervalInSecs\<close> seconds (in the clock's 64-bit ticks). As long as the player's
  record is not removed from the online list, every later call for the same steam id
  made one second or more before that time returns false and changes nothing, whatever
  list operations, expiry runs and calls for other players come in between. The code
  compares in whole seconds, truncated towards zero, and a player who logs out and in
  again gets a new record that is ready at once.
\<close>

theorem IsNextMessageReady_throttles:
  assumes online: "sid \<in> steam_id ` set (online_players st)"
    and ready: "IsNextMessageReady cfg now st sid = (True, st')"
    and between: "\<forall>step \<in> set steps. lets_wait sid (now + seconds (MessageIntervalInSecs cfg)) step"
    and early: "second_before (now + seconds (MessageIntervalInSecs cfg)) later"
  shows "(\<exists>d'. find (\<lambda>d. steam_id d = sid) (online_players st') = Some d'
              \<and> nextMessageTime d' = now + seconds (MessageIntervalInSecs cfg))
       \<and> (fits64 (sint now + sint (MessageIntervalInSecs cfg) * ticks_per_second)
           \<longrightarrow> sint (now + seconds (MessageIntervalInSecs cfg))
               = sint now + sint (MessageIntervalInSecs cfg) * ticks_per_second)
       \<and> IsNextMessageReady cfg later (run_tracker_steps cfg steps st') sid
           = (False, run_tracker_steps cfg steps st')"
proof -
  let ?next = "now + seconds (MessageIntervalInSecs cfg)"
  from online obtain old where old: "map_of (timers (online_players st)) sid = Some old"
    using online_has_timer by blast
  have a: "fst (next_message_scan cfg now sid (online_players st))"
    and st': "st' = st\<lparr>online_players := snd (next_message_scan cfg now sid (online_players st))\<rparr>"
    using ready by (auto simp: IsNextMessageReady_def Let_def)
  from a old have "duration_cast_seconds (old - now) \<le> 0"
    by (simp add: next_message_scan_answer)
  with old have 1: "map_of (timers (online_players st')) sid = Some ?next"
    by (simp add: st' next_message_scan_timers)
  from run_tracker_steps_waits [OF 1 between]
  have 2: "map_of (timers (online_players (run_tracker_steps cfg steps st'))) sid = Some ?next" .
  have "\<not> fst (next_message_scan cfg later sid (online_players (run_tracker_steps cfg steps st')))"
    using 2 second_before_waits [OF early] by (simp add: next_message_scan_answer)
  then have 3: "IsNextMessageReady cfg later (run_tracker_steps cfg steps st') sid
           = (False, run_tracker_steps cfg steps st')"
    by (simp add: IsNextMessageReady_def Let_def next_message_scan_idle)
  have 4: "fits64 (sint now + sint (MessageIntervalInSecs cfg) * ticks_per_second)
           \<longrightarrow> sint ?next = sint now + sint (MessageIntervalInSecs cfg) * ticks_per_second"
    by (simp add: sint_add64 sint_seconds)
  from map_of_timers_find [OF 1] 3 4 show ?thesis by simp
qed

theorem IsNextMessageReady_throttles_witness:
  "2 \<in> steam_id ` set (online_players example_state)
   \<and> fst (IsNextMessageReady example_cfg example_now example_state 2)
   \<and> list_all (lets_wait 2 (example_now + seconds (MessageIntervalInSecs example_cfg))) example_steps
   \<and> second_before (example_now + seconds (MessageIntervalInSecs example_cfg))
        (example_now + 90000000)
   \<and> map steam_id (online_players (run_tracker_steps example_cfg example_steps
        (snd (IsNextMessageReady example_cfg example_now example_state 2)))) = [2, 9]
   \<and> \<not> fst (IsNextMessageReady example_cfg (example_now + 90000000)
              (run_tracker_steps example_cfg example_steps
                (snd (IsNextMessageReady example_cfg example_now example_state 2))) 2)"
proof -
  have i: "2 \<in> steam_id ` set (online_players example_state)"
    by (simp add: example_state_def)
  have r: "fst (IsNextMessageReady example_cfg example_now example_state 2)"
    by code_simp
  then have c: "IsNextMessageReady example_cfg example_now example_state 2
      = (True, snd (IsNextMessageReady example_cfg example_now example_state 2))"
    by (simp add: prod_eq_iff)
  have w: "list_all (lets_wait 2 (example_now + seconds (MessageIntervalInSecs example_cfg)))
      example_steps"
    by code_simp
  then have b: "\<forall>step \<in> set example_steps.
      lets_wait 2 (example_now + seconds (MessageIntervalInSecs example_cfg)) step"
    by (simp add: list_all_iff)
  have l: "second_before (example_now + seconds (MessageIntervalInSecs example_cfg))
        (example_now + 90000000)"
    by code_simp
  have o: "map steam_id (online_players (run_tracker_steps example_cfg example_steps
        (snd (IsNextMessageReady example_cfg example_now example_state 2)))) = [2, 9]"
    by code_simp
  note T = IsNextMessageReady_throttles [OF i c b l]
  from T have "IsNextMessageReady example_cfg (example_now + 90000000)
      (run_tracker_steps example_cfg example_steps
        (snd (IsNextMessageReady example_cfg example_now example_state 2))) 2
    = (False, run_tracker_steps example_cfg example_steps
        (snd (IsNextMessageReady example_cfg example_now example_state 2)))"
    by (elim conjE)
  then have n: "\<not> fst (IsNextMessageReady example_cfg (example_now + 90000000)
              (run_tracker_steps example_cfg example_steps
                (snd (IsNextMessageReady example_cfg example_now example_state 2))) 2)"
    by simp
  from i r w l o n show ?thesis by (intro conjI)
qed

text \<open>
  C4 as it was written promises false for every later call made strictly before the new
  \<open>nextMessageTime\<close>. A call one tick before it is ready again; and so is a call eight
  seconds before it, when the player has logged out and in again in between.
\<close>

theorem IsNextMessageReady_ready_within_interval:
  "2 \<in> steam_id ` set (online_players example_state)
   \<and> fst (IsNextMessageReady example_cfg example_now example_state 2)
   \<and> nextMessageTime
        (online_players (snd (IsNextMessageReady example_cfg example_now example_state 2)) ! 0)
       = example_now + seconds (MessageIntervalInSecs example_cfg)
   \<and> sint (example_now + 99999999)
       < sint (example_now + seconds (MessageIntervalInSecs example_cfg))
   \<and> fst (IsNextMessageReady example_cfg (example_now + 99999999)
            (snd (IsNextMessageReady example_cfg example_now example_state 2)) 2)
   \<and> sint (example_now + 20000000)
       < sint (example_now + seconds (MessageIntervalInSecs example_cfg))
   \<and> 2 \<in> steam_id ` set (online_players (run_tracker_steps example_cfg example_relog
            (snd (IsNextMessageReady example_cfg example_now example_state 2))))
   \<and> fst (IsNextMessageReady example_cfg (example_now + 20000000)
            (run_tracker_steps example_cfg example_relog
              (snd (IsNextMessageReady example_cfg example_now example_state 2))) 2)"
  by code_simp

section \<open>The save hook\<close>

lemma attempt_effects_append:
  "attempt_effects store (xs @ ys) db
   = attempt_effects store xs db @ attempt_effects store ys (fold (attempt store) xs db)"
  by (induction xs arbitrary: db) (simp_all add: attempt_def split: option.splits)

lemma statements_of_append: "statements_of (xs @ ys) = statements_of xs @ statements_of ys"
  by (induction xs rule: statements_of.induct) simp_all

lemma statements_of_attempt_effects: "statements_of (attempt_effects store stmts db) = stmts"
  by (induction stmts arbitrary: db) (simp_all split: option.splits)

lemma fold_UpdatePlayerDB:
  "fold (UpdatePlayerDB store ts) ds (st, db, done)
   = (st,
      fold (attempt store) (map (\<lambda>d. INSERT_OR_REPLACE_Players (player_row ts d)) ds) db,
      done @ attempt_effects store (map (\<lambda>d. INSERT_OR_REPLACE_Players (player_row ts d)) ds) db)"
  by (induction ds arbitrary: db "done")
     (simp_all add: UpdatePlayerDB_def run_sql_def note_effect_def attempt_def Let_def
        split: option.splits)

lemma fold_UpdatePVETribeDB_True:
  "fold (\<lambda>tid s. snd (UpdatePVETribeDB store tid True s)) tids (st, db, done)
   = (st,
      fold (attempt store) (map (\<lambda>tid. INSERT_OR_REPLACE_PVE_Tribes tid True) tids) db,
      done @ attempt_effects store (map (\<lambda>tid. INSERT_OR_REPLACE_PVE_Tribes tid True) tids) db)"
  by (induction tids arbitrary: db "done")
     (simp_all add: UpdatePVETribeDB_def run_sql_def note_effect_def attempt_def Let_def
        split: option.splits)

lemma run_sql_fst [simp]: "fst (snd (run_sql store stmt s)) = fst s"
  by (simp add: run_sql_def split: prod.splits option.splits)

lemma note_effect_fst [simp]: "fst (note_effect e s) = fst s"
  by (simp add: note_effect_def split: prod.splits)

lemma UpdatePlayerDB_fst [simp]: "fst (UpdatePlayerDB store ts d s) = fst s"
  by (simp add: UpdatePlayerDB_def Let_def)

lemma UpdatePVETribeDB_players [simp]:
  "all_players (fst (snd (UpdatePVETribeDB store tid flag s))) = all_players (fst s)"
  by (cases "snd (run_sql store (INSERT_OR_REPLACE_PVE_Tribes tid flag) s)";
      cases "run_sql store (INSERT_OR_REPLACE_PVE_Tribes tid flag) s")
     (auto simp: UpdatePVETribeDB_def Let_def split: prod.splits dest: arg_cong [where f = "\<lambda>r. fst (snd r)"])

lemma fold_UpdatePlayerDB_fst: "fst (fold (UpdatePlayerDB store ts) ds s) = fst s"
  by (induction ds arbitrary: s) simp_all

lemma fold_UpdatePVETribeDB_players:
  "all_players (fst (fold (\<lambda>tid s. snd (UpdatePVETribeDB store tid flag s)) tids s))
   = all_players (fst s)"
  by (induction tids arbitrary: s) simp_all

lemma removed_tribes_loop_players:
  "removed_tribes_loop store tids s = Some s' \<Longrightarrow> all_players (fst s') = all_players (fst s)"
proof (induction tids arbitrary: s)
  case Nil
  then show ?case by simp
next
  case (Cons tid tids)
  from Cons.prems have "removed_tribes_loop store tids (snd (UpdatePVETribeDB store tid False s)) = Some s'"
    by (simp add: Let_def split: if_splits)
  from Cons.IH [OF this] show ?case by simp
qed

text \<open>
  C6, as amended. \<open>Hook_AShooterGameMode_SaveWorld\<close> calls the original \<open>SaveWorld\<close> first.
  When the store runs \<open>BEGIN TRANSACTION\<close>, \<open>END TRANSACTION\<close> and \<open>PRAGMA optimize\<close>, and
  \<open>removedPveTribesList\<close> is empty, the hook runs between the one \<open>BEGIN\<close> and the one \<open>END\<close>
  an \<open>INSERT OR REPLACE\<close> into \<open>Players\<close> for every record of \<open>all_players_\<close> and an
  \<open>INSERT OR REPLACE\<close> into \<open>PVE_Tribes\<close> with \<open>Is_Protected\<close> 1 for every tribe id of
  \<open>pveTribesList\<close>, in this order; a statement the store refuses is logged and leaves the
  store as it was, every other takes effect in the store; and the tracker is as before.
  Whenever the hook returns, it returns the result of the original call, and whether
  it returns or throws, the records of \<open>all_players_\<close> are as before.
\<close>

theorem SaveWorld_writes_all:
  "(removedPveTribesList st = []
    \<and> execute store BEGIN_TRANSACTION db = Some db1
    \<and> execute store END_TRANSACTION
          (fold (attempt store) (player_statements ts st @ pve_statements st) db1) = Some db3
    \<and> execute store PRAGMA_optimize db3 = Some db4
    \<longrightarrow> Hook_AShooterGameMode_SaveWorld store ts original_result st db
          = Returned original_result
              (st, db4,
               [Call_SaveWorld_original, Sql BEGIN_TRANSACTION]
               @ attempt_effects store (player_statements ts st @ pve_statements st) db1
               @ [Sql END_TRANSACTION, Sql PRAGMA_optimize, LogInfo Log_database_updated])
        \<and> statements_of
              ([Call_SaveWorld_original, Sql BEGIN_TRANSACTION]
               @ attempt_effects store (player_statements ts st @ pve_statements st) db1
               @ [Sql END_TRANSACTION, Sql PRAGMA_optimize, LogInfo Log_database_updated])
          = [BEGIN_TRANSACTION] @ player_statements ts st @ pve_statements st
            @ [END_TRANSACTION, PRAGMA_optimize])
   \<and> (\<forall>r s. Hook_AShooterGameMode_SaveWorld store ts original_result st db = Returned r s
         \<longrightarrow> r = original_result \<and> all_players (fst s) = all_players st)
   \<and> (\<forall>s. Hook_AShooterGameMode_SaveWorld store ts original_result st db = Threw s
         \<longrightarrow> all_players (fst s) = all_players st)"
proof (intro conjI impI allI)
  assume a: "removedPveTribesList st = []
    \<and> execute store BEGIN_TRANSACTION db = Some db1
    \<and> execute store END_TRANSACTION
          (fold (attempt store) (player_statements ts st @ pve_statements st) db1) = Some db3
    \<and> execute store PRAGMA_optimize db3 = Some db4"
  then show "Hook_AShooterGameMode_SaveWorld store ts original_result st db
          = Returned original_result
              (st, db4,
               [Call_SaveWorld_original, Sql BEGIN_TRANSACTION]
               @ attempt_effects store (player_statements ts st @ pve_statements st) db1
               @ [Sql END_TRANSACTION, Sql PRAGMA_optimize, LogInfo Log_database_updated])"
    by (simp add: Hook_AShooterGameMode_SaveWorld_def Let_def run_sql_def fold_UpdatePlayerDB
          fold_UpdatePVETribeDB_True note_effect_def attempt_effects_append
          player_statements_def pve_statements_def)
  show "statements_of
              ([Call_SaveWorld_original, Sql BEGIN_TRANSACTION]
               @ attempt_effects store (player_statements ts st @ pve_statements st) db1
               @ [Sql END_TRANSACTION, Sql PRAGMA_optimize, LogInfo Log_database_updated])
          = [BEGIN_TRANSACTION] @ player_statements ts st @ pve_statements st
            @ [END_TRANSACTION, PRAGMA_optimize]"
    by (simp add: statements_of_append statements_of_attempt_effects)
next
  fix r s
  assume "Hook_AShooterGameMode_SaveWorld store ts original_result st db = Returned r s"
  then show "r = original_result" and "all_players (fst s) = all_players st"
    by (auto simp: Hook_AShooterGameMode_SaveWorld_def Let_def fold_UpdatePlayerDB_fst
          fold_UpdatePVETribeDB_players
          split: option.splits if_splits dest!: removed_tribes_loop_players)
next
  fix s
  assume "Hook_AShooterGameMode_SaveWorld store ts original_result st db = Threw s"
  then show "all_players (fst s) = all_players st"
    by (auto simp: Hook_AShooterGameMode_SaveWorld_def Let_def fold_UpdatePlayerDB_fst
          fold_UpdatePVETribeDB_players
          split: option.splits if_splits dest!: removed_tribes_loop_players)
qed

theorem SaveWorld_writes_all_witness:
  "removedPveTribesList (example_save_state\<lparr>removedPveTribesList := []\<rparr>) = []
   \<and> execute example_store BEGIN_TRANSACTION [] = Some [BEGIN_TRANSACTION]
   \<and> Hook_AShooterGameMode_SaveWorld example_store (\<lambda>t. ''2026-11-02'') True
        (example_save_state\<lparr>removedPveTribesList := []\<rparr>) []
     = Returned True
         (example_save_state\<lparr>removedPveTribesList := []\<rparr>,
          [BEGIN_TRANSACTION,
           INSERT_OR_REPLACE_Players
             [Sql_uint64 7, Sql_uint64 200002, Sql_text ''2026-11-02'', Sql_text ''2026-11-02'',
              Sql_int 1, Sql_int 1],
           INSERT_OR_REPLACE_PVE_Tribes 200001 True, END_TRANSACTION, PRAGMA_optimize],
          [Call_SaveWorld_original, Sql BEGIN_TRANSACTION,
           Sql (INSERT_OR_REPLACE_Players
                 [Sql_uint64 7, Sql_uint64 200002, Sql_text ''2026-11-02'',
                  Sql_text ''2026-11-02'', Sql_int 1, Sql_int 1]),
           Sql (INSERT_OR_REPLACE_PVE_Tribes 200001 True),
           Sql END_TRANSACTION, Sql PRAGMA_optimize, LogInfo Log_database_updated])"
proof -
  let ?st = "example_save_state\<lparr>removedPveTribesList := []\<rparr>"
  let ?ts = "\<lambda>t :: time_point. ''2026-11-02''"
  let ?rows = "[INSERT_OR_REPLACE_Players
             [Sql_uint64 7, Sql_uint64 200002, Sql_text ''2026-11-02'', Sql_text ''2026-11-02'',
              Sql_int 1, Sql_int 1],
           INSERT_OR_REPLACE_PVE_Tribes 200001 True]"
  have r: "removedPveTribesList ?st = []" by simp
  have b: "execute example_store BEGIN_TRANSACTION [] = Some [BEGIN_TRANSACTION]"
    by (simp add: example_store_def)
  have s: "player_statements ?ts ?st @ pve_statements ?st = ?rows"
    by (simp add: player_statements_def pve_statements_def player_row_def
          example_save_state_def empty_tracker_def)
  have e: "execute example_store END_TRANSACTION
        (fold (attempt example_store) (player_statements ?ts ?st @ pve_statements ?st)
          [BEGIN_TRANSACTION])
      = Some (BEGIN_TRANSACTION # ?rows @ [END_TRANSACTION])"
    unfolding s by (simp add: attempt_def example_store_def)
  have p: "execute example_store PRAGMA_optimize (BEGIN_TRANSACTION # ?rows @ [END_TRANSACTION])
      = Some (BEGIN_TRANSACTION # ?rows @ [END_TRANSACTION, PRAGMA_optimize])"
    by (simp add: example_store_def)
  have a: "attempt_effects example_store ?rows [BEGIN_TRANSACTION] = map Sql ?rows"
    by (simp add: example_store_def)
  note T = SaveWorld_writes_all [of ?st example_store "[]" "[BEGIN_TRANSACTION]" ?ts
      "BEGIN_TRANSACTION # ?rows @ [END_TRANSACTION]"
      "BEGIN_TRANSACTION # ?rows @ [END_TRANSACTION, PRAGMA_optimize]" True]
  from T [THEN conjunct1, THEN mp, OF conjI [OF r conjI [OF b conjI [OF e p]]], THEN conjunct1]
    r b show ?thesis
    unfolding s a by simp
qed

text \<open>
  C6 as it was written has every record written and the result returned, whatever the
  store does. When the store refuses the insert into \<open>Players\<close>, \<open>UpdatePlayerDB\<close> catches
  the exception and logs it, and the record of player 7 is not in the store after the
  save. When the store refuses \<open>BEGIN TRANSACTION\<close>, the exception leaves the hook,
  which returns nothing.
\<close>

theorem SaveWorld_insert_refused:
  "map steam_id (all_players (example_save_state\<lparr>removedPveTribesList := []\<rparr>)) = [7]
   \<and> Hook_AShooterGameMode_SaveWorld example_store_without_players (\<lambda>t. ''2026-11-02'') True
        (example_save_state\<lparr>removedPveTribesList := []\<rparr>) []
     = Returned True
         (example_save_state\<lparr>removedPveTribesList := []\<rparr>,
          [BEGIN_TRANSACTION, INSERT_OR_REPLACE_PVE_Tribes 200001 True, END_TRANSACTION,
           PRAGMA_optimize],
          [Call_SaveWorld_original, Sql BEGIN_TRANSACTION,
           Sql (INSERT_OR_REPLACE_Players
                 [Sql_uint64 7, Sql_uint64 200002, Sql_text ''2026-11-02'',
                  Sql_text ''2026-11-02'', Sql_int 1, Sql_int 1]),
           LogError Log_unexpected_DB_error,
           Sql (INSERT_OR_REPLACE_PVE_Tribes 200001 True),
           Sql END_TRANSACTION, Sql PRAGMA_optimize, LogInfo Log_database_updated])
   \<and> Hook_AShooterGameMode_SaveWorld example_store_locked (\<lambda>t. ''2026-11-02'') True
        (example_save_state\<lparr>removedPveTribesList := []\<rparr>) []
     = Threw (example_save_state\<lparr>removedPveTribesList := []\<rparr>, [],
              [Call_SaveWorld_original, Sql BEGIN_TRANSACTION])"
  by code_simp

text \<open>
  With tribes in \<open>removedPveTribesList\<close> and a store that runs the inserts, the loop over
  that list clears it under its own iterators, and what the hook does from there on is
  not defined.
\<close>

lemma SaveWorld_removed_tribes_undefined:
  "removedPveTribesList example_save_state = [200002, 200003]
   \<and> Hook_AShooterGameMode_SaveWorld example_store (\<lambda>t. ''2026-11-02'') True
        example_save_state [] = Undefined_behaviour"
  by code_simp

section \<open>The plugin manager\<close>

lemma find_append_new: "find P xs = None \<Longrightarrow> P x \<Longrightarrow> find P (xs @ [x]) = Some x"
  by (induction xs) (auto split: if_splits)

lemma ReadPluginInfo_throws: "ReadPluginInfo h pm n = Inl e \<Longrightarrow> e = Json_exception"
  by (auto simp: ReadPluginInfo_def json_value_def Let_def
        split: option.splits sum.splits json_field.splits)

text \<open>
  C7, as amended. \<open>LoadPlugin\<close> throws a runtime error exactly when the plugin's \<open>.dll\<close>
  does not exist, or a plugin of that name is loaded already, or \<open>PluginInfo.json\<close> is
  read and either its \<open>MinApiVersion\<close> is not zero and greater than the API version or
  the library does not load. It throws the JSON reader's exception, which is not a
  runtime error, exactly when the \<open>.dll\<close> exists, no plugin of that name is loaded and
  \<open>PluginInfo.json\<close> is rejected by the reader or has a value of the wrong type. When
  it throws, the manager and \<open>loaded_plugins_\<close> are as before; otherwise the plugin is
  appended to \<open>loaded_plugins_\<close> and \<open>IsPluginLoaded\<close> reports it.
\<close>

theorem LoadPlugin_throws_iff:
  "((\<exists>e. fst (LoadPlugin h pm n) = Inl (Runtime_error e)) \<longleftrightarrow>
      (\<not> fs_exists (files pm) (plugin_dll_path h n)
       \<or> IsPluginLoaded pm n
       \<or> (\<exists>info. ReadPluginInfo h pm n = Inr info
             \<and> ((MinApiVersion info \<noteq> 0 \<and> API_VERSION h < MinApiVersion info)
                 \<or> LoadLibraryA h (files pm) (plugin_dll_path h n) = None))))
   \<and> (fst (LoadPlugin h pm n) = Inl Json_exception \<longleftrightarrow>
        (fs_exists (files pm) (plugin_dll_path h n) \<and> \<not> IsPluginLoaded pm n
         \<and> ReadPluginInfo h pm n = Inl Json_exception))
   \<and> ((\<exists>e. fst (LoadPlugin h pm n) = Inl e)
        \<longrightarrow> snd (LoadPlugin h pm n) = pm
            \<and> loaded_plugins (snd (LoadPlugin h pm n)) = loaded_plugins pm)
   \<and> (\<forall>p. fst (LoadPlugin h pm n) = Inr p
        \<longrightarrow> loaded_plugins (snd (LoadPlugin h pm n)) = loaded_plugins pm @ [p]
            \<and> name p = n
            \<and> IsPluginLoaded (snd (LoadPlugin h pm n)) n)"
proof (intro conjI)
  show "(\<exists>e. fst (LoadPlugin h pm n) = Inl (Runtime_error e)) \<longleftrightarrow>
      (\<not> fs_exists (files pm) (plugin_dll_path h n)
       \<or> IsPluginLoaded pm n
       \<or> (\<exists>info. ReadPluginInfo h pm n = Inr info
             \<and> ((MinApiVersion info \<noteq> 0 \<and> API_VERSION h < MinApiVersion info)
                 \<or> LoadLibraryA h (files pm) (plugin_dll_path h n) = None)))"
    by (auto simp: LoadPlugin_def Let_def split: option.splits sum.splits
          dest: ReadPluginInfo_throws)
  show "fst (LoadPlugin h pm n) = Inl Json_exception \<longleftrightarrow>
        (fs_exists (files pm) (plugin_dll_path h n) \<and> \<not> IsPluginLoaded pm n
         \<and> ReadPluginInfo h pm n = Inl Json_exception)"
    by (auto simp: LoadPlugin_def Let_def split: option.splits sum.splits if_splits)
  show "(\<exists>e. fst (LoadPlugin h pm n) = Inl e)
        \<longrightarrow> snd (LoadPlugin h pm n) = pm
            \<and> loaded_plugins (snd (LoadPlugin h pm n)) = loaded_plugins pm"
    by (auto simp: LoadPlugin_def Let_def split: option.splits sum.splits if_splits)
  show "\<forall>p. fst (LoadPlugin h pm n) = Inr p
        \<longrightarrow> loaded_plugins (snd (LoadPlugin h pm n)) = loaded_plugins pm @ [p]
            \<and> name p = n
            \<and> IsPluginLoaded (snd (LoadPlugin h pm n)) n"
    by (auto simp: LoadPlugin_def Let_def IsPluginLoaded_def FindPlugin_def find_append_new
          split: option.splits sum.splits if_splits)
qed

theorem LoadPlugin_throws_iff_witness:
  "fst (LoadPlugin example_host example_manager ''Kits'')
     = Inr \<lparr>h_module = 4, name = ''Kits'', full_name = [], description = ''No description'',
            version = 1, min_api_version = 0, dependencies = []\<rparr>
   \<and> map name (loaded_plugins (snd (LoadPlugin example_host example_manager ''Kits'')))
       = [''Shop'', ''Kits'']
   \<and> IsPluginLoaded (snd (LoadPlugin example_host example_manager ''Kits'')) ''Kits''
   \<and> fst (LoadPlugin example_host example_manager ''Shop'')
       = Inl (Runtime_error (Plugin_was_already_loaded ''Shop''))
   \<and> IsPluginLoaded example_manager ''Shop''
   \<and> snd (LoadPlugin example_host example_manager ''Shop'') = example_manager"
proof -
  have ok: "fst (LoadPlugin example_host example_manager ''Kits'')
     = Inr \<lparr>h_module = 4, name = ''Kits'', full_name = [], description = ''No description'',
            version = 1, min_api_version = 0, dependencies = []\<rparr>"
    by code_simp
  have err: "fst (LoadPlugin example_host example_manager ''Shop'')
      = Inl (Runtime_error (Plugin_was_already_loaded ''Shop''))"
    by code_simp
  have was: "IsPluginLoaded example_manager ''Shop''"
    and old: "map name (loaded_plugins example_manager) = [''Shop'']"
    by code_simp+
  note K = LoadPlugin_throws_iff [of example_host example_manager "''Kits''"]
  note S = LoadPlugin_throws_iff [of example_host example_manager "''Shop''"]
  from K ok have "loaded_plugins (snd (LoadPlugin example_host example_manager ''Kits''))
       = loaded_plugins example_manager @ [\<lparr>h_module = 4, name = ''Kits'', full_name = [],
            description = ''No description'', version = 1, min_api_version = 0, dependencies = []\<rparr>]"
    and l: "IsPluginLoaded (snd (LoadPlugin example_host example_manager ''Kits'')) ''Kits''"
    by simp_all
  then have m: "map name (loaded_plugins (snd (LoadPlugin example_host example_manager ''Kits'')))
       = [''Shop'', ''Kits'']"
    using old by simp
  from S err have "snd (LoadPlugin example_host example_manager ''Shop'') = example_manager"
    by simp
  with ok err was l m show ?thesis by simp
qed

text \<open>
  C7 as it was written knows no other exit than the runtime errors. The
  \<open>PluginInfo.json\<close> of \<open>Kits\<close> declares no \<open>MinApiVersion\<close> and has a number for
  \<open>FullName\<close>: the \<open>.dll\<close> exists, \<open>Kits\<close> is not loaded, the library would load, no
  runtime error is thrown, and \<open>Kits\<close> is not appended.
\<close>

theorem LoadPlugin_json_exception:
  "fs_exists (files example_manager_ill_typed) (plugin_dll_path example_host ''Kits'')
   \<and> \<not> IsPluginLoaded example_manager_ill_typed ''Kits''
   \<and> map_option json_MinApiVersion
        (case files example_manager_ill_typed (plugin_dir_path example_host ''Kits'' @ ''/PluginInfo.json'')
         of Some text \<Rightarrow> parse_json example_host text | None \<Rightarrow> None) = Some Missing
   \<and> LoadLibraryA example_host (files example_manager_ill_typed)
        (plugin_dll_path example_host ''Kits'') = Some 4
   \<and> fst (LoadPlugin example_host example_manager_ill_typed ''Kits'') = Inl Json_exception
   \<and> loaded_plugins (snd (LoadPlugin example_host example_manager_ill_typed ''Kits''))
       = loaded_plugins example_manager_ill_typed
   \<and> \<not> IsPluginLoaded (snd (LoadPlugin example_host example_manager_ill_typed ''Kits'')) ''Kits''"
  by code_simp

lemma detect_entry_idle: "\<not> wants_reload pm e \<Longrightarrow> detect_entry h e (sw, pm) = (sw, pm)"
  by (auto simp: detect_entry_def wants_reload_def Let_def)

lemma detect_fold_idle:
  "\<forall>e \<in> set entries. \<not> wants_reload pm e \<Longrightarrow> fold (detect_entry h) entries (sw, pm) = (sw, pm)"
  by (induction entries) (simp_all add: detect_entry_idle)

lemma ReadPluginInfo_files:
  "files a = files b \<Longrightarrow> ReadPluginInfo h a n = ReadPluginInfo h b n"
  by (simp add: ReadPluginInfo_def)

lemma LoadPlugin_state:
  "snd (LoadPlugin h pm (stem e))
   = (case fst (LoadPlugin h pm (stem e)) of Inl error \<Rightarrow> pm | Inr q \<Rightarrow> after_load e q pm)"
  by (auto simp: LoadPlugin_def Let_def after_load_def split: option.splits sum.splits)

lemma reload_plugin_result:
  assumes p: "FindPlugin pm (stem e) = Some p" and c: "files pm (new_dll_path e) = Some c"
  shows "reload_plugin h (stem e) (old_dll_path e) (new_dll_path e) pm =
    (if \<not> fs_exists (files pm) (plugin_dll_path h (stem e))
     then (Inl (Runtime_error (Plugin_does_not_exist (stem e))), pm)
     else if \<not> FreeLibrary h (h_module p)
     then (Inl (Runtime_error (Failed_to_unload_plugin (stem e))), pm)
     else if \<not> copy_goes_through h (files pm) (new_dll_path e) (old_dll_path e)
     then (Inl (Runtime_error (Filesystem_error (new_dll_path e))), after_unload e p pm)
     else if \<not> remove_goes_through h (files (after_copy e c (after_unload e p pm))) (new_dll_path e)
     then (Inl (Runtime_error (Filesystem_error (new_dll_path e))),
           after_copy e c (after_unload e p pm))
     else (case fst (LoadPlugin h (after_remove e (after_copy e c (after_unload e p pm))) (stem e)) of
             Inl error \<Rightarrow> (Inl error, after_remove e (after_copy e c (after_unload e p pm)))
           | Inr q \<Rightarrow> (Inr (),
               after_load e q (after_remove e (after_copy e c (after_unload e p pm))))))"
proof -
  let ?pm3 = "after_remove e (after_copy e c (after_unload e p pm))"
  have u: "UnloadPlugin h pm (stem e) =
    (if \<not> fs_exists (files pm) (plugin_dll_path h (stem e))
     then (Inl (Runtime_error (Plugin_does_not_exist (stem e))), pm)
     else if \<not> FreeLibrary h (h_module p)
     then (Inl (Runtime_error (Failed_to_unload_plugin (stem e))), pm)
     else (Inr (), after_unload e p pm))"
    using p by (simp add: UnloadPlugin_def after_unload_def)
  have k: "copy_file h (new_dll_path e) (old_dll_path e) (after_unload e p pm) =
    (if \<not> copy_goes_through h (files pm) (new_dll_path e) (old_dll_path e)
     then (Inl (Runtime_error (Filesystem_error (new_dll_path e))), after_unload e p pm)
     else (Inr (), after_copy e c (after_unload e p pm)))"
    using c by (simp add: copy_file_def after_unload_def after_copy_def)
  have r: "remove_file h (new_dll_path e) (after_copy e c (after_unload e p pm)) =
    (if \<not> remove_goes_through h (files (after_copy e c (after_unload e p pm))) (new_dll_path e)
     then (Inl (Runtime_error (Filesystem_error (new_dll_path e))),
           after_copy e c (after_unload e p pm))
     else (Inr (), ?pm3))"
    by (simp add: remove_file_def after_remove_def)
  have l: "LoadPlugin h ?pm3 (stem e)
      = (fst (LoadPlugin h ?pm3 (stem e)),
         case fst (LoadPlugin h ?pm3 (stem e)) of Inl error \<Rightarrow> ?pm3 | Inr q \<Rightarrow> after_load e q ?pm3)"
    using LoadPlugin_state [of h ?pm3 e] by (simp add: prod_eq_iff)
  show ?thesis
    unfolding reload_plugin_def u
    by (simp add: k r, subst l, simp split: sum.splits)
qed

lemma detect_entry_swap:
  assumes w: "wants_reload pm e" and p: "FindPlugin pm (stem e) = Some p"
    and c: "files pm (new_dll_path e) = Some c"
  shows "detect_entry h e (sw, pm) =
    (False,
     if \<not> fs_exists (files pm) (plugin_dll_path h (stem e))
     then log_event (Log_warn (Runtime_error (Plugin_does_not_exist (stem e)))) (after_save sw pm)
     else if \<not> FreeLibrary h (h_module p)
     then log_event (Log_warn (Runtime_error (Failed_to_unload_plugin (stem e)))) (after_save sw pm)
     else if \<not> copy_goes_through h (files pm) (new_dll_path e) (old_dll_path e)
     then log_event (Log_warn (Runtime_error (Filesystem_error (new_dll_path e))))
            (after_unload e p (after_save sw pm))
     else if \<not> remove_goes_through h (files (after_copy e c pm)) (new_dll_path e)
     then log_event (Log_warn (Runtime_error (Filesystem_error (new_dll_path e))))
            (after_copy e c (after_unload e p (after_save sw pm)))
     else (case fst (LoadPlugin h
                   (after_remove e (after_copy e c (after_unload e p (after_save sw pm)))) (stem e)) of
             Inl error \<Rightarrow> log_event (Log_warn error)
               (after_remove e (after_copy e c (after_unload e p (after_save sw pm))))
           | Inr q \<Rightarrow> log_event (Log_info_reloaded (stem e))
               (after_load e q
                 (after_remove e (after_copy e c (after_unload e p (after_save sw pm)))))))"
proof -
  let ?pm0 = "after_save sw pm"
  have p0: "FindPlugin ?pm0 (stem e) = Some p" and c0: "files ?pm0 (new_dll_path e) = Some c"
    and f0: "files ?pm0 = files pm"
    using p c by (simp_all add: after_save_def FindPlugin_def)
  have pm1: "(if sw then pm\<lparr>events := events pm @
        [Log_info_saving_world, Saved_world, Log_info_world_saved]\<rparr> else pm) = ?pm0"
    by (simp add: after_save_def save_steps_def)
  have fc: "files (after_copy e c (after_unload e p ?pm0)) = files (after_copy e c pm)"
    by (simp add: after_copy_def after_unload_def after_save_def)
  have d: "detect_entry h e (sw, pm)
      = (case reload_plugin h (stem e) (old_dll_path e) (new_dll_path e) ?pm0 of
           (Inl error, pm2) \<Rightarrow> (False, log_event (Log_warn error) pm2)
         | (Inr u, pm2) \<Rightarrow> (False, log_event (Log_info_reloaded (stem e)) pm2))"
    using w p
    by (simp add: detect_entry_def wants_reload_def Let_def pm1 old_dll_path_def new_dll_path_def)
  show ?thesis
    unfolding d reload_plugin_result [OF p0 c0] f0 fc
    by (simp split: sum.splits)
qed

text \<open>
  C5, as amended. \<open>DetectPluginChanges\<close> attempts a hot swap for a directory exactly when
  the file \<open><plugin>.dll.ArkApi\<close> exists in it and a plugin of that name is in
  \<open>loaded_plugins_\<close> when the loop reaches it. The attempt goes, in this order, through
  unload, copy of the \<open>.dll.ArkApi\<close> over the \<open>.dll\<close>, removal of the \<open>.dll.ArkApi\<close> and
  load. It ends at the first of them that throws: the unload when the plugin's \<open>.dll\<close>
  is missing or the library is not freed, the copy or the removal when the system
  refuses, the load when \<open>LoadPlugin\<close> throws; the steps before it are done, none after
  it is, and the exception is logged as a warning. When none throws, all four are done,
  the \<open>.dll\<close> has the new content, the \<open>.dll.ArkApi\<close> is gone, the plugin is loaded and
  the reload is logged. Any other directory entry leaves the manager and the files as
  they are, so that with one such directory among the entries the whole run does what
  the attempt for it does.
\<close>

theorem DetectPluginChanges_hot_swap:
  "(\<not> wants_reload pm e \<longrightarrow> detect_entry h e (sw, pm) = (sw, pm))
   \<and> ((\<forall>e \<in> set entries. \<not> wants_reload pm e) \<longrightarrow> DetectPluginChanges h entries pm = pm)
   \<and> (wants_reload pm e \<and> FindPlugin pm (stem e) = Some p
       \<and> files pm (new_dll_path e) = Some c
       \<longrightarrow> detect_entry h e (sw, pm) =
             (False,
              if \<not> fs_exists (files pm) (plugin_dll_path h (stem e))
              then log_event (Log_warn (Runtime_error (Plugin_does_not_exist (stem e))))
                     (after_save sw pm)
              else if \<not> FreeLibrary h (h_module p)
              then log_event (Log_warn (Runtime_error (Failed_to_unload_plugin (stem e))))
                     (after_save sw pm)
              else if \<not> copy_goes_through h (files pm) (new_dll_path e) (old_dll_path e)
              then log_event (Log_warn (Runtime_error (Filesystem_error (new_dll_path e))))
                     (after_unload e p (after_save sw pm))
              else if \<not> remove_goes_through h (files (after_copy e c pm)) (new_dll_path e)
              then log_event (Log_warn (Runtime_error (Filesystem_error (new_dll_path e))))
                     (after_copy e c (after_unload e p (after_save sw pm)))
              else (case fst (LoadPlugin h
                       (after_remove e (after_copy e c (after_unload e p (after_save sw pm))))
                       (stem e)) of
                      Inl error \<Rightarrow> log_event (Log_warn error)
                        (after_remove e (after_copy e c (after_unload e p (after_save sw pm))))
                    | Inr q \<Rightarrow> log_event (Log_info_reloaded (stem e))
                        (after_load e q
                          (after_remove e (after_copy e c (after_unload e p (after_save sw pm)))))))
         \<and> (fs_exists (files pm) (plugin_dll_path h (stem e))
            \<and> FreeLibrary h (h_module p)
            \<and> copy_goes_through h (files pm) (new_dll_path e) (old_dll_path e)
            \<and> remove_goes_through h (files (after_copy e c pm)) (new_dll_path e)
            \<and> fs_exists ((files pm)(old_dll_path e \<mapsto> c, new_dll_path e := None))
                 (plugin_dll_path h (stem e))
            \<and> find (\<lambda>q. name q = stem e)
                 (erase_first (\<lambda>q. name q = stem e) (loaded_plugins pm)) = None
            \<and> ReadPluginInfo h (after_remove e (after_copy e c pm)) (stem e) = Inr info
            \<and> (MinApiVersion info = 0 \<or> MinApiVersion info \<le> API_VERSION h)
            \<and> LoadLibraryA h ((files pm)(old_dll_path e \<mapsto> c, new_dll_path e := None))
                 (plugin_dll_path h (stem e)) = Some handle
            \<longrightarrow> events (snd (detect_entry h e (sw, pm)))
                  = events pm @ save_steps sw @ reload_steps e (h_module p) handle
                    @ [Log_info_reloaded (stem e)]
                \<and> files (snd (detect_entry h e (sw, pm)))
                  = (files pm)(old_dll_path e \<mapsto> c, new_dll_path e := None)
                \<and> IsPluginLoaded (snd (detect_entry h e (sw, pm))) (stem e)))
   \<and> ((\<forall>x \<in> set before. \<not> wants_reload pm x)
       \<and> (\<forall>x \<in> set later.
             \<not> wants_reload (snd (detect_entry h e (save_world_before_reload pm, pm))) x)
       \<longrightarrow> DetectPluginChanges h (before @ e # later) pm
           = snd (detect_entry h e (save_world_before_reload pm, pm)))"
proof (intro conjI impI)
  assume "(\<forall>x \<in> set before. \<not> wants_reload pm x)
       \<and> (\<forall>x \<in> set later.
             \<not> wants_reload (snd (detect_entry h e (save_world_before_reload pm, pm))) x)"
  then show "DetectPluginChanges h (before @ e # later) pm
           = snd (detect_entry h e (save_world_before_reload pm, pm))"
    using detect_fold_idle [of later "snd (detect_entry h e (save_world_before_reload pm, pm))" h
        "fst (detect_entry h e (save_world_before_reload pm, pm))"]
    by (simp add: DetectPluginChanges_def detect_fold_idle)
next
  assume "\<not> wants_reload pm e"
  then show "detect_entry h e (sw, pm) = (sw, pm)" by (rule detect_entry_idle)
next
  assume "\<forall>e \<in> set entries. \<not> wants_reload pm e"
  then show "DetectPluginChanges h entries pm = pm"
    by (simp add: DetectPluginChanges_def detect_fold_idle)
next
  assume "wants_reload pm e \<and> FindPlugin pm (stem e) = Some p
       \<and> files pm (new_dll_path e) = Some c"
  then show "detect_entry h e (sw, pm) =
             (False,
              if \<not> fs_exists (files pm) (plugin_dll_path h (stem e))
              then log_event (Log_warn (Runtime_error (Plugin_does_not_exist (stem e))))
                     (after_save sw pm)
              else if \<not> FreeLibrary h (h_module p)
              then log_event (Log_warn (Runtime_error (Failed_to_unload_plugin (stem e))))
                     (after_save sw pm)
              else if \<not> copy_goes_through h (files pm) (new_dll_path e) (old_dll_path e)
              then log_event (Log_warn (Runtime_error (Filesystem_error (new_dll_path e))))
                     (after_unload e p (after_save sw pm))
              else if \<not> remove_goes_through h (files (after_copy e c pm)) (new_dll_path e)
              then log_event (Log_warn (Runtime_error (Filesystem_error (new_dll_path e))))
                     (after_copy e c (after_unload e p (after_save sw pm)))
              else (case fst (LoadPlugin h
                       (after_remove e (after_copy e c (after_unload e p (after_save sw pm))))
                       (stem e)) of
                      Inl error \<Rightarrow> log_event (Log_warn error)
                        (after_remove e (after_copy e c (after_unload e p (after_save sw pm))))
                    | Inr q \<Rightarrow> log_event (Log_info_reloaded (stem e))
                        (after_load e q
                          (after_remove e (after_copy e c (after_unload e p (after_save sw pm)))))))"
    by (intro detect_entry_swap) simp_all
next
  let ?pm3 = "after_remove e (after_copy e c (after_unload e p (after_save sw pm)))"
  let ?fs3 = "(files pm)(old_dll_path e \<mapsto> c, new_dll_path e := None)"
  assume a: "wants_reload pm e \<and> FindPlugin pm (stem e) = Some p
       \<and> files pm (new_dll_path e) = Some c"
    and ok: "fs_exists (files pm) (plugin_dll_path h (stem e))
            \<and> FreeLibrary h (h_module p)
            \<and> copy_goes_through h (files pm) (new_dll_path e) (old_dll_path e)
            \<and> remove_goes_through h (files (after_copy e c pm)) (new_dll_path e)
            \<and> fs_exists ?fs3 (plugin_dll_path h (stem e))
            \<and> find (\<lambda>q. name q = stem e)
                 (erase_first (\<lambda>q. name q = stem e) (loaded_plugins pm)) = None
            \<and> ReadPluginInfo h (after_remove e (after_copy e c pm)) (stem e) = Inr info
            \<and> (MinApiVersion info = 0 \<or> MinApiVersion info \<le> API_VERSION h)
            \<and> LoadLibraryA h ?fs3 (plugin_dll_path h (stem e)) = Some handle"
  have f3: "files ?pm3 = ?fs3"
    and l3: "loaded_plugins ?pm3 = erase_first (\<lambda>q. name q = stem e) (loaded_plugins pm)"
    and e3: "events ?pm3 = events pm @ save_steps sw
        @ [Unloaded (stem e) (h_module p), Copied (new_dll_path e) (old_dll_path e),
           Removed (new_dll_path e)]"
    by (simp_all add: after_remove_def after_copy_def after_unload_def after_save_def)
  have "files ?pm3 = files (after_remove e (after_copy e c pm))"
    by (simp add: after_remove_def after_copy_def after_unload_def after_save_def)
  from ReadPluginInfo_files [OF this] ok
  have ri: "ReadPluginInfo h ?pm3 (stem e) = Inr info"
    by simp
  define q where "q = \<lparr>h_module = handle, name = stem e, full_name = FullName info,
      description = Description info, version = Version info,
      min_api_version = MinApiVersion info, dependencies = Dependencies info\<rparr>"
  have lp: "fst (LoadPlugin h ?pm3 (stem e)) = Inr q"
    using ok by (auto simp: LoadPlugin_def Let_def f3 ri IsPluginLoaded_def FindPlugin_def l3 q_def)
  have d: "snd (detect_entry h e (sw, pm))
      = log_event (Log_info_reloaded (stem e)) (after_load e q ?pm3)"
    using a ok detect_entry_swap [of pm e p c h sw] by (simp add: lp)
  have hq: "h_module q = handle" and nq: "name q = stem e"
    by (simp_all add: q_def)
  show "events (snd (detect_entry h e (sw, pm)))
                  = events pm @ save_steps sw @ reload_steps e (h_module p) handle
                    @ [Log_info_reloaded (stem e)]"
    unfolding d by (simp add: log_event_def after_load_def e3 reload_steps_def hq)
  show "files (snd (detect_entry h e (sw, pm))) = ?fs3"
    unfolding d by (simp add: log_event_def after_load_def f3)
  show "IsPluginLoaded (snd (detect_entry h e (sw, pm))) (stem e)"
    unfolding d using ok
    by (simp add: log_event_def after_load_def l3 IsPluginLoaded_def FindPlugin_def
          find_append_new nq)
qed

theorem DetectPluginChanges_hot_swap_witness:
  "wants_reload example_manager shop_entry
   \<and> \<not> wants_reload example_manager kits_entry
   \<and> FindPlugin example_manager (stem shop_entry) = Some shop_plugin
   \<and> files example_manager (new_dll_path shop_entry) = Some ''newer''
   \<and> detect_entry example_host kits_entry (True, example_manager) = (True, example_manager)
   \<and> DetectPluginChanges example_host [kits_entry] example_manager = example_manager
   \<and> events (snd (detect_entry example_host shop_entry (True, example_manager)))
       = [Log_info_saving_world, Saved_world, Log_info_world_saved,
          Unloaded ''Shop'' 3,
          Copied ''C:/ark/ArkApi/Plugins/Shop/Shop.dll.ArkApi''
            ''C:/ark/ArkApi/Plugins/Shop/Shop.dll'',
          Removed ''C:/ark/ArkApi/Plugins/Shop/Shop.dll.ArkApi'',
          Loaded ''Shop'' 5,
          Log_info_reloaded ''Shop'']
   \<and> IsPluginLoaded (snd (detect_entry example_host shop_entry (True, example_manager)))
        (stem shop_entry)
   \<and> DetectPluginChanges example_host [kits_entry, shop_entry] example_manager
       = snd (detect_entry example_host shop_entry
               (save_world_before_reload example_manager, example_manager))"
proof -
  let ?fs3 = "(files example_manager)(old_dll_path shop_entry \<mapsto> ''newer'',
      new_dll_path shop_entry := None)"
  let ?info = "\<lparr>FullName = [], Description = ''No description'', Version = 1,
      MinApiVersion = 0, Dependencies = []\<rparr>"
  have w: "wants_reload example_manager shop_entry"
    and nw: "\<not> wants_reload example_manager kits_entry"
    and p: "FindPlugin example_manager (stem shop_entry) = Some shop_plugin"
    and c: "files example_manager (new_dll_path shop_entry) = Some ''newer''"
    by code_simp+
  have ok: "fs_exists (files example_manager) (plugin_dll_path example_host (stem shop_entry))"
    "FreeLibrary example_host (h_module shop_plugin)"
    "copy_goes_through example_host (files example_manager) (new_dll_path shop_entry)
       (old_dll_path shop_entry)"
    "remove_goes_through example_host (files (after_copy shop_entry ''newer'' example_manager))
       (new_dll_path shop_entry)"
    "fs_exists ?fs3 (plugin_dll_path example_host (stem shop_entry))"
    "find (\<lambda>q. name q = stem shop_entry)
       (erase_first (\<lambda>q. name q = stem shop_entry) (loaded_plugins example_manager)) = None"
    "ReadPluginInfo example_host (after_remove shop_entry
       (after_copy shop_entry ''newer'' example_manager)) (stem shop_entry) = Inr ?info"
    "MinApiVersion ?info = 0 \<or> MinApiVersion ?info \<le> API_VERSION example_host"
    "LoadLibraryA example_host ?fs3 (plugin_dll_path example_host (stem shop_entry)) = Some 5"
    by code_simp+
  have ev: "events example_manager @ save_steps True
      @ reload_steps shop_entry (h_module shop_plugin) 5 @ [Log_info_reloaded (stem shop_entry)]
      = [Log_info_saving_world, Saved_world, Log_info_world_saved,
          Unloaded ''Shop'' 3,
          Copied ''C:/ark/ArkApi/Plugins/Shop/Shop.dll.ArkApi''
            ''C:/ark/ArkApi/Plugins/Shop/Shop.dll'',
          Removed ''C:/ark/ArkApi/Plugins/Shop/Shop.dll.ArkApi'',
          Loaded ''Shop'' 5,
          Log_info_reloaded ''Shop'']"
    by code_simp
  have nws: "\<forall>e \<in> set [kits_entry]. \<not> wants_reload example_manager e"
    using nw by simp
  note K = DetectPluginChanges_hot_swap [of example_manager kits_entry example_host True
      "[kits_entry]" shop_plugin "''newer''" ?info 5 "[]" "[]"]
  note S = DetectPluginChanges_hot_swap [of example_manager shop_entry example_host True
      "[kits_entry]" shop_plugin "''newer''" ?info 5 "[kits_entry]" "[]"]
  note 1 = K [THEN conjunct1, THEN mp, OF nw]
  note 2 = K [THEN conjunct2, THEN conjunct1, THEN mp, OF nws]
  have okc: "fs_exists (files example_manager) (plugin_dll_path example_host (stem shop_entry))
            \<and> FreeLibrary example_host (h_module shop_plugin)
            \<and> copy_goes_through example_host (files example_manager) (new_dll_path shop_entry)
                 (old_dll_path shop_entry)
            \<and> remove_goes_through example_host
                 (files (after_copy shop_entry ''newer'' example_manager)) (new_dll_path shop_entry)
            \<and> fs_exists ?fs3 (plugin_dll_path example_host (stem shop_entry))
            \<and> find (\<lambda>q. name q = stem shop_entry)
                 (erase_first (\<lambda>q. name q = stem shop_entry) (loaded_plugins example_manager))
               = None
            \<and> ReadPluginInfo example_host (after_remove shop_entry
                 (after_copy shop_entry ''newer'' example_manager)) (stem shop_entry) = Inr ?info
            \<and> (MinApiVersion ?info = 0 \<or> MinApiVersion ?info \<le> API_VERSION example_host)
            \<and> LoadLibraryA example_host ?fs3 (plugin_dll_path example_host (stem shop_entry))
               = Some 5"
    using ok by (intro conjI)
  note 3 = S [THEN conjunct2, THEN conjunct2, THEN conjunct1, THEN mp,
      OF conjI [OF w conjI [OF p c]], THEN conjunct2, THEN mp, OF okc]
  have "(\<forall>x \<in> set [kits_entry]. \<not> wants_reload example_manager x)
       \<and> (\<forall>x \<in> set [].
             \<not> wants_reload (snd (detect_entry example_host shop_entry
                  (save_world_before_reload example_manager, example_manager))) x)"
    using nw by simp
  note 6 = S [THEN conjunct2, THEN conjunct2, THEN conjunct2, THEN mp, OF this]
  note 4 = 3 [THEN conjunct1]
  note 5 = 3 [THEN conjunct2, THEN conjunct2]
  from w nw p c 1 2 4 [unfolded ev] 5 6 [simplified] show ?thesis by (intro conjI)
qed

text \<open>
  C5 as it was written has all four steps done whenever the file exists and the plugin
  is loaded. Here the new \<open>Shop\<close> asks for a newer API: it is unloaded, the file is
  copied and removed, the load throws, and \<open>Shop\<close> is loaded no more.
\<close>

theorem DetectPluginChanges_reload_fails:
  "wants_reload example_manager_newer shop_entry
   \<and> events (DetectPluginChanges example_host [shop_entry] example_manager_newer)
       = [Log_info_saving_world, Saved_world, Log_info_world_saved,
          Unloaded ''Shop'' 3,
          Copied ''C:/ark/ArkApi/Plugins/Shop/Shop.dll.ArkApi''
            ''C:/ark/ArkApi/Plugins/Shop/Shop.dll'',
          Removed ''C:/ark/ArkApi/Plugins/Shop/Shop.dll.ArkApi'',
          Log_warn (Runtime_error (Plugin_requires_newer_API_version ''Shop''))]
   \<and> \<not> IsPluginLoaded (DetectPluginChanges example_host [shop_entry] example_manager_newer) ''Shop''
   \<and> loaded_plugins (DetectPluginChanges example_host [shop_entry] example_manager_newer) = []"
  by code_simp

end
